theory Spec2Isabelle
  imports Main
begin

section \<open>The preprocessor state\<close>

text \<open>
  The header \<^verbatim>\<open>libfusn/libfusn_extern.h\<close> consists of preprocessor directives only, so
  its behaviour is a transformation of the preprocessor's state. A macro definition is
  object-like (a replacement list of tokens) or function-like (parameters and a
  replacement list); the header itself only writes object-like definitions, but the
  table it is processed in may hold either kind.
\<close>

datatype macro = Object_like "string list" | Function_like "string list" "string list"

type_synonym macro_table = "string \<rightharpoonup> macro"

text \<open>
  The directives of the header that take effect are logged in the order in which they
  are executed, so that "defined before including" can be stated. A \<^verbatim>\<open>#define\<close> that
  changes an existing definition is a constraint violation that compilers report and
  then carry out; it is recorded as a diagnostic.
\<close>

datatype directive = Define string macro | Include string

datatype diagnostic = Macro_redefined string

datatype pp_error = Header_not_found string

record pp_state =
  macros :: macro_table
  directives :: "directive list"
  diagnostics :: "diagnostic list"

text \<open>
  The files named by \<^verbatim>\<open>#include\<close> (\<^verbatim>\<open>common.h\<close> and \<^verbatim>\<open>libfusn/extern.h\<close>) are not part
  of the source tree. They are a parameter of the model: a resolver maps a header name
  to the effect that processing the file has on the macro table, or to \<open>None\<close> when the
  file is not on the include path.
\<close>

type_synonym resolver = "string \<Rightarrow> (macro_table \<Rightarrow> macro_table) option"

definition is_defined :: "string \<Rightarrow> macro_table \<Rightarrow> bool" where
  "is_defined name m \<longleftrightarrow> m name \<noteq> None"

definition redefinition :: "string \<Rightarrow> macro \<Rightarrow> macro_table \<Rightarrow> diagnostic list" where
  "redefinition name body m =
     (case m name of
        None \<Rightarrow> []
      | Some old \<Rightarrow> if old = body then [] else [Macro_redefined name])"

definition define_macro :: "string \<Rightarrow> macro \<Rightarrow> pp_state \<Rightarrow> pp_state" where
  "define_macro name body s =
     s\<lparr>macros := (macros s)(name \<mapsto> body),
       directives := directives s @ [Define name body],
       diagnostics := diagnostics s @ redefinition name body (macros s)\<rparr>"

definition include_header :: "string \<Rightarrow> resolver \<Rightarrow> pp_state \<Rightarrow> pp_error + pp_state" where
  "include_header name R s =
     (case R name of
        None \<Rightarrow> Inl (Header_not_found name)
      | Some effect \<Rightarrow>
          Inr (s\<lparr>macros := effect (macros s),
                 directives := directives s @ [Include name]\<rparr>))"

section \<open>The header\<close>

abbreviation (input) GUARD :: string where
  "GUARD \<equiv> ''_LIBFUSN_INTERNAL_EXTERN_H''"

abbreviation (input) HAVE_LOCAL_LIBFUSN :: string where
  "HAVE_LOCAL_LIBFUSN \<equiv> ''HAVE_LOCAL_LIBFUSN''"

abbreviation (input) WIN32 :: string where
  "WIN32 \<equiv> ''_WIN32''"

abbreviation (input) DLL_EXPORT :: string where
  "DLL_EXPORT \<equiv> ''DLL_EXPORT''"

abbreviation (input) LIBFUSN_DLL_EXPORT :: string where
  "LIBFUSN_DLL_EXPORT \<equiv> ''LIBFUSN_DLL_EXPORT''"

abbreviation (input) LIBFUSN_EXTERN :: string where
  "LIBFUSN_EXTERN \<equiv> ''LIBFUSN_EXTERN''"

abbreviation (input) LIBFUSN_EXTERN_VARIABLE :: string where
  "LIBFUSN_EXTERN_VARIABLE \<equiv> ''LIBFUSN_EXTERN_VARIABLE''"

abbreviation (input) common_h :: string where
  "common_h \<equiv> ''common.h''"

abbreviation (input) extern_h :: string where
  "extern_h \<equiv> ''libfusn/extern.h''"

text \<open>
  Lines 23 and 25: the guard is defined and \<^verbatim>\<open>common.h\<close> is included. The conditionals
  that follow are evaluated in the state this leaves.
\<close>

definition prologue :: "resolver \<Rightarrow> pp_state \<Rightarrow> pp_error + pp_state" where
  "prologue R s = include_header common_h R (define_macro GUARD (Object_like []) s)"

text \<open>
  The macro table that lines 23 and 25 leave, when \<^verbatim>\<open>common.h\<close> has the effect \<open>common\<close>:
  the table on which the conditionals of lines 29 and 34 are evaluated.
\<close>

definition after_common :: "(macro_table \<Rightarrow> macro_table) \<Rightarrow> pp_state \<Rightarrow> macro_table" where
  "after_common common s = common ((macros s)(GUARD \<mapsto> Object_like []))"

text \<open>Lines 34 to 36: the libtool DLL case sets \<^verbatim>\<open>LIBFUSN_DLL_EXPORT\<close>.\<close>

definition dll_export_block :: "pp_state \<Rightarrow> pp_state" where
  "dll_export_block s =
     (if is_defined WIN32 (macros s) \<and> is_defined DLL_EXPORT (macros s)
      then define_macro LIBFUSN_DLL_EXPORT (Object_like []) s
      else s)"

text \<open>Lines 30 to 40: the branch taken when \<^verbatim>\<open>HAVE_LOCAL_LIBFUSN\<close> is not defined.\<close>

definition shared_branch :: "resolver \<Rightarrow> pp_state \<Rightarrow> pp_error + pp_state" where
  "shared_branch R s =
     (case include_header extern_h R (dll_export_block s) of
        Inl e \<Rightarrow> Inl e
      | Inr s' \<Rightarrow>
          Inr (define_macro LIBFUSN_EXTERN_VARIABLE (Object_like [LIBFUSN_EXTERN]) s'))"

text \<open>
  Lines 43 and 44: the \<^verbatim>\<open>#else\<close> branch. The comment after \<^verbatim>\<open>LIBFUSN_EXTERN\<close> is
  removed before directives are executed, so the replacement list is empty.
\<close>

definition local_branch :: "pp_state \<Rightarrow> pp_state" where
  "local_branch s =
     define_macro LIBFUSN_EXTERN_VARIABLE (Object_like [''extern''])
       (define_macro LIBFUSN_EXTERN (Object_like []) s)"

text \<open>The whole file, lines 22 to 48.\<close>

definition libfusn_extern_h :: "resolver \<Rightarrow> pp_state \<Rightarrow> pp_error + pp_state" where
  "libfusn_extern_h R s =
     (if \<not> is_defined GUARD (macros s) then
        (case prologue R s of
           Inl e \<Rightarrow> Inl e
         | Inr s1 \<Rightarrow>
             if \<not> is_defined HAVE_LOCAL_LIBFUSN (macros s1) then shared_branch R s1
             else Inr (local_branch s1))
      else Inr s)"

text \<open>Including the header \<open>n\<close> times in a row; a failed inclusion ends the translation.\<close>

fun include_times :: "nat \<Rightarrow> resolver \<Rightarrow> pp_state \<Rightarrow> pp_error + pp_state" where
  "include_times 0 R s = Inr s"
| "include_times (Suc n) R s =
     (case libfusn_extern_h R s of
        Inl e \<Rightarrow> Inl e
      | Inr s' \<Rightarrow> include_times n R s')"

text \<open>The directives executed between a state and a later one.\<close>

definition performed :: "pp_state \<Rightarrow> pp_state \<Rightarrow> directive list" where
  "performed s s' = drop (length (directives s)) (directives s')"

section \<open>Linkage modes\<close>

text \<open>
  The branch the header takes, read off the directives it executes. In the local mode
  the header itself defines \<^verbatim>\<open>LIBFUSN_EXTERN\<close> as nothing. In the two shared modes it
  includes the companion header, after defining \<^verbatim>\<open>LIBFUSN_DLL_EXPORT\<close> (export) or
  without defining it (import).
\<close>

datatype linkage_mode = Local | Dll_export | Dll_import

fun selects :: "directive list \<Rightarrow> linkage_mode \<Rightarrow> bool" where
  "selects ds Local \<longleftrightarrow> Define LIBFUSN_EXTERN (Object_like []) \<in> set ds"
| "selects ds Dll_export \<longleftrightarrow>
     Define LIBFUSN_DLL_EXPORT (Object_like []) \<in> set ds \<and> Include extern_h \<in> set ds"
| "selects ds Dll_import \<longleftrightarrow>
     Define LIBFUSN_DLL_EXPORT (Object_like []) \<notin> set ds \<and> Include extern_h \<in> set ds"

text \<open>
  The three linkage modes, read off the macro table that the header leaves, where \<open>s1\<close>
  is the state after \<^verbatim>\<open>common.h\<close>. In the local mode the table is that of \<open>s1\<close> with the
  header's own two definitions. In the two shared modes it is what the companion header
  made of the table handed to it at line 38, with \<^verbatim>\<open>LIBFUSN_EXTERN_VARIABLE\<close> added: the
  mode is the export one when \<^verbatim>\<open>LIBFUSN_DLL_EXPORT\<close> is defined in the table handed over,
  and the import one when it is not.
\<close>

fun linkage :: "resolver \<Rightarrow> pp_state \<Rightarrow> pp_state \<Rightarrow> linkage_mode \<Rightarrow> bool" where
  "linkage R s1 s' Local \<longleftrightarrow>
     macros s' =
       (macros s1)(LIBFUSN_EXTERN \<mapsto> Object_like [],
                  LIBFUSN_EXTERN_VARIABLE \<mapsto> Object_like [''extern''])"
| "linkage R s1 s' Dll_export \<longleftrightarrow>
     is_defined LIBFUSN_DLL_EXPORT (macros (dll_export_block s1))
     \<and> (\<exists>companion. R extern_h = Some companion
           \<and> macros s' =
               (companion (macros (dll_export_block s1)))
                 (LIBFUSN_EXTERN_VARIABLE \<mapsto> Object_like [LIBFUSN_EXTERN]))"
| "linkage R s1 s' Dll_import \<longleftrightarrow>
     \<not> is_defined LIBFUSN_DLL_EXPORT (macros (dll_export_block s1))
     \<and> (\<exists>companion. R extern_h = Some companion
           \<and> macros s' =
               (companion (macros (dll_export_block s1)))
                 (LIBFUSN_EXTERN_VARIABLE \<mapsto> Object_like [LIBFUSN_EXTERN]))"

text \<open>
  Modelled from the spec: the companion header \<^verbatim>\<open>libfusn/extern.h\<close> is not in the source
  tree. The spec says that it supplies the export or import attribute, and the header's
  comment says that \<^verbatim>\<open>LIBFUSN_DLL_EXPORT\<close> is set before including it. The two
  predicates state that protocol for an arbitrary companion header: it defines
  \<^verbatim>\<open>LIBFUSN_EXTERN\<close> as \<open>ann\<close> whenever it is entered with \<^verbatim>\<open>LIBFUSN_DLL_EXPORT\<close> defined
  (respectively not defined).
\<close>

definition exports_on_flag :: "(macro_table \<Rightarrow> macro_table) \<Rightarrow> macro \<Rightarrow> bool" where
  "exports_on_flag companion ann \<longleftrightarrow>
     (\<forall>m. is_defined LIBFUSN_DLL_EXPORT m \<longrightarrow> companion m LIBFUSN_EXTERN = Some ann)"

definition imports_without_flag :: "(macro_table \<Rightarrow> macro_table) \<Rightarrow> macro \<Rightarrow> bool" where
  "imports_without_flag companion ann \<longleftrightarrow>
     (\<forall>m. \<not> is_defined LIBFUSN_DLL_EXPORT m \<longrightarrow> companion m LIBFUSN_EXTERN = Some ann)"

text \<open>A header effect keeps the include guard when it never undefines it.\<close>

definition keeps_guard :: "(macro_table \<Rightarrow> macro_table) \<Rightarrow> bool" where
  "keeps_guard effect \<longleftrightarrow> (\<forall>m. is_defined GUARD m \<longrightarrow> is_defined GUARD (effect m))"

definition headers_keep_guard :: "resolver \<Rightarrow> bool" where
  "headers_keep_guard R \<longleftrightarrow>
     (\<forall>effect. R common_h = Some effect \<or> R extern_h = Some effect \<longrightarrow> keeps_guard effect)"

text \<open>
  The conditionals of lines 23 to 44 read as a function of the three symbols they test:
  the directives that are executed when the header is entered.
\<close>

definition decision_tree :: "bool \<Rightarrow> bool \<Rightarrow> bool \<Rightarrow> directive list" where
  "decision_tree have_local win32 dll_export =
     [Define GUARD (Object_like []), Include common_h] @
     (if \<not> have_local then
        (if win32 \<and> dll_export then [Define LIBFUSN_DLL_EXPORT (Object_like [])] else []) @
        [Include extern_h, Define LIBFUSN_EXTERN_VARIABLE (Object_like [LIBFUSN_EXTERN])]
      else
        [Define LIBFUSN_EXTERN (Object_like []),
         Define LIBFUSN_EXTERN_VARIABLE (Object_like [''extern''])])"

text \<open>
  The definition of a macro after processing, or the error that stopped processing.
\<close>

definition final_definition :: "string \<Rightarrow> pp_error + pp_state \<Rightarrow> pp_error + macro option" where
  "final_definition name r = (case r of Inl e \<Rightarrow> Inl e | Inr s \<Rightarrow> Inr (macros s name))"

section \<open>Sample build configurations\<close>

text \<open>
  A translation unit starts from the macros predefined by the compiler and the command
  line (\<^verbatim>\<open>-DNAME\<close> defines \<^verbatim>\<open>NAME\<close> as \<^verbatim>\<open>1\<close>), with nothing executed yet.
\<close>

definition predefined :: "string list \<Rightarrow> macro_table" where
  "predefined names = map_of (map (\<lambda>n. (n, Object_like [''1''])) names)"

definition initial_state :: "string list \<Rightarrow> pp_state" where
  "initial_state names = \<lparr>macros = predefined names, directives = [], diagnostics = []\<rparr>"

text \<open>A \<^verbatim>\<open>common.h\<close> that defines no macro of its own.\<close>

definition plain_common_h :: "macro_table \<Rightarrow> macro_table" where
  "plain_common_h m = m"

text \<open>
  Modelled from the spec: the companion header \<^verbatim>\<open>libfusn/extern.h\<close> is not in the source
  tree. The spec says that it supplies the platform's export or import attribute, and
  the header's comment says that \<^verbatim>\<open>LIBFUSN_DLL_EXPORT\<close> is set before including it. This
  sample defines \<^verbatim>\<open>LIBFUSN_EXTERN\<close> as the export attribute when \<^verbatim>\<open>LIBFUSN_DLL_EXPORT\<close>
  is defined and as the import attribute otherwise. It only instantiates theorems that
  hold for every companion header.
\<close>

definition export_annotation :: macro where
  "export_annotation = Object_like [''__declspec(dllexport)'']"

definition import_annotation :: macro where
  "import_annotation = Object_like [''extern'', ''__declspec(dllimport)'']"

definition sample_extern_h :: "macro_table \<Rightarrow> macro_table" where
  "sample_extern_h m =
     (if is_defined LIBFUSN_DLL_EXPORT m then m(LIBFUSN_EXTERN \<mapsto> export_annotation)
      else m(LIBFUSN_EXTERN \<mapsto> import_annotation))"

definition all_headers :: resolver where
  "all_headers name =
     (if name = common_h then Some plain_common_h
      else if name = extern_h then Some sample_extern_h
      else None)"

definition only_common_h :: resolver where
  "only_common_h name = (if name = common_h then Some plain_common_h else None)"

definition no_headers :: resolver where
  "no_headers name = None"

text \<open>
  A \<^verbatim>\<open>common.h\<close> that, like a generated configuration header, defines
  \<^verbatim>\<open>HAVE_LOCAL_LIBFUSN\<close> itself, on an include path without the companion header.
\<close>

definition config_common_h :: "macro_table \<Rightarrow> macro_table" where
  "config_common_h m = m(HAVE_LOCAL_LIBFUSN \<mapsto> Object_like [''1''])"

definition config_headers :: resolver where
  "config_headers name = (if name = common_h then Some config_common_h else None)"

section \<open>Basic facts\<close>

lemma macros_define_macro:
  "macros (define_macro name body s) = (macros s)(name \<mapsto> body)"
  by (simp add: define_macro_def)

lemma directives_define_macro:
  "directives (define_macro name body s) = directives s @ [Define name body]"
  by (simp add: define_macro_def)

lemma performed_append:
  "directives s' = directives s @ ds \<Longrightarrow> performed s s' = ds"
  by (simp add: performed_def)

lemma local_branch_macros:
  "macros (local_branch s) =
     (macros s)(LIBFUSN_EXTERN \<mapsto> Object_like [],
                LIBFUSN_EXTERN_VARIABLE \<mapsto> Object_like [''extern''])"
  by (simp add: local_branch_def macros_define_macro)

lemma local_branch_directives:
  "directives (local_branch s) =
     directives s @ [Define LIBFUSN_EXTERN (Object_like []),
                     Define LIBFUSN_EXTERN_VARIABLE (Object_like [''extern''])]"
  by (simp add: local_branch_def directives_define_macro)

lemma prologue_directives:
  "prologue R s = Inr s1 \<Longrightarrow>
     directives s1 = directives s @ [Define GUARD (Object_like []), Include common_h]"
  by (auto simp: prologue_def include_header_def directives_define_macro
           split: option.splits)

lemma prologue_guard:
  assumes "prologue R s = Inr s1" and "R common_h = Some effect" and "keeps_guard effect"
  shows "is_defined GUARD (macros s1)"
proof -
  have "is_defined GUARD ((macros s)(GUARD \<mapsto> Object_like []))"
    by (simp add: is_defined_def)
  with assms(3) have "is_defined GUARD (effect ((macros s)(GUARD \<mapsto> Object_like [])))"
    by (simp add: keeps_guard_def)
  with assms(1,2) show ?thesis
    by (auto simp: prologue_def include_header_def macros_define_macro)
qed

lemma prologue_fails:
  "R common_h = None \<Longrightarrow> prologue R s = Inl (Header_not_found common_h)"
  by (simp add: prologue_def include_header_def)

lemma header_guarded:
  "is_defined GUARD (macros s) \<Longrightarrow> libfusn_extern_h R s = Inr s"
  by (simp add: libfusn_extern_h_def)

lemma header_local:
  assumes "\<not> is_defined GUARD (macros s)" and "prologue R s = Inr s1"
      and "is_defined HAVE_LOCAL_LIBFUSN (macros s1)"
  shows "libfusn_extern_h R s = Inr (local_branch s1)"
  using assms by (simp add: libfusn_extern_h_def)

lemma header_shared:
  assumes "\<not> is_defined GUARD (macros s)" and "prologue R s = Inr s1"
      and "\<not> is_defined HAVE_LOCAL_LIBFUSN (macros s1)"
  shows "libfusn_extern_h R s = shared_branch R s1"
  using assms by (simp add: libfusn_extern_h_def)

lemma shared_branch_export:
  assumes "R extern_h = Some companion"
      and "is_defined WIN32 (macros s1)" and "is_defined DLL_EXPORT (macros s1)"
  shows "\<exists>s'. shared_branch R s1 = Inr s'
           \<and> directives s' = directives s1 @
               [Define LIBFUSN_DLL_EXPORT (Object_like []), Include extern_h,
                Define LIBFUSN_EXTERN_VARIABLE (Object_like [LIBFUSN_EXTERN])]
           \<and> macros s' =
               (companion ((macros s1)(LIBFUSN_DLL_EXPORT \<mapsto> Object_like [])))
                 (LIBFUSN_EXTERN_VARIABLE \<mapsto> Object_like [LIBFUSN_EXTERN])"
  using assms
  by (simp add: shared_branch_def dll_export_block_def include_header_def define_macro_def)

lemma shared_branch_import:
  assumes "R extern_h = Some companion"
      and "\<not> (is_defined WIN32 (macros s1) \<and> is_defined DLL_EXPORT (macros s1))"
  shows "\<exists>s'. shared_branch R s1 = Inr s'
           \<and> directives s' = directives s1 @
               [Include extern_h,
                Define LIBFUSN_EXTERN_VARIABLE (Object_like [LIBFUSN_EXTERN])]
           \<and> macros s' =
               (companion (macros s1))
                 (LIBFUSN_EXTERN_VARIABLE \<mapsto> Object_like [LIBFUSN_EXTERN])"
  using assms
  by (simp add: shared_branch_def dll_export_block_def include_header_def define_macro_def)

text \<open>Evaluation of the sample configurations.\<close>

lemma is_defined_predefined:
  "is_defined n (predefined names) \<longleftrightarrow> n \<in> set names"
  by (auto simp: is_defined_def predefined_def map_of_eq_None_iff image_iff comp_def)

lemma initial_state_fresh:
  "GUARD \<notin> set names \<Longrightarrow> \<not> is_defined GUARD (macros (initial_state names))"
  by (simp add: initial_state_def is_defined_predefined)

lemma prologue_initial_state:
  assumes "R common_h = Some plain_common_h"
  shows "\<exists>s1. prologue R (initial_state names) = Inr s1
           \<and> macros s1 = (predefined names)(GUARD \<mapsto> Object_like [])
           \<and> directives s1 = [Define GUARD (Object_like []), Include common_h]"
  using assms
  by (simp add: prologue_def include_header_def define_macro_def initial_state_def
        plain_common_h_def)

lemma is_defined_upd:
  "is_defined x (m(y \<mapsto> b)) \<longleftrightarrow> x = y \<or> is_defined x m"
  by (simp add: is_defined_def)

lemma sample_extern_h_exports: "exports_on_flag sample_extern_h export_annotation"
  by (simp add: exports_on_flag_def sample_extern_h_def)

lemma sample_extern_h_imports: "imports_without_flag sample_extern_h import_annotation"
  by (simp add: imports_without_flag_def sample_extern_h_def)

text \<open>The header executes the directives of its decision tree.\<close>

lemma header_directives:
  assumes "\<not> is_defined GUARD (macros s)" and "prologue R s = Inr s1"
      and "R extern_h = None \<longrightarrow> is_defined HAVE_LOCAL_LIBFUSN (macros s1)"
  shows "\<exists>s'. libfusn_extern_h R s = Inr s'
           \<and> directives s' = directives s @
               decision_tree (is_defined HAVE_LOCAL_LIBFUSN (macros s1))
                 (is_defined WIN32 (macros s1)) (is_defined DLL_EXPORT (macros s1))
           \<and> macros s' LIBFUSN_EXTERN_VARIABLE =
               Some (Object_like (if is_defined HAVE_LOCAL_LIBFUSN (macros s1)
                                  then [''extern''] else [LIBFUSN_EXTERN]))"
proof (cases "is_defined HAVE_LOCAL_LIBFUSN (macros s1)")
  case True
  show ?thesis
    using header_local [OF assms(1,2) True] True
    by (simp add: local_branch_macros local_branch_directives
          prologue_directives [OF assms(2)] decision_tree_def)
next
  case False
  with assms(3) obtain companion where c: "R extern_h = Some companion"
    by auto
  show ?thesis
  proof (cases "is_defined WIN32 (macros s1) \<and> is_defined DLL_EXPORT (macros s1)")
    case True
    then have w: "is_defined WIN32 (macros s1)" and e: "is_defined DLL_EXPORT (macros s1)"
      by simp_all
    from shared_branch_export [of R companion s1, OF c w e]
    show ?thesis
      using header_shared [OF assms(1,2) False] False w e
      by (auto simp: prologue_directives [OF assms(2)] decision_tree_def)
  next
    case nw: False
    from shared_branch_import [of R companion s1, OF c nw]
    show ?thesis
      using header_shared [OF assms(1,2) False] False nw
      by (auto simp: prologue_directives [OF assms(2)] decision_tree_def)
  qed
qed

lemma shared_branch_missing:
  "R extern_h = None \<Longrightarrow> shared_branch R s1 = Inl (Header_not_found extern_h)"
  by (simp add: shared_branch_def include_header_def)

lemma header_success_prologue:
  assumes "\<not> is_defined GUARD (macros s)" and "libfusn_extern_h R s = Inr s'"
  shows "\<exists>s1. prologue R s = Inr s1
           \<and> (R extern_h = None \<longrightarrow> is_defined HAVE_LOCAL_LIBFUSN (macros s1))"
proof (cases "prologue R s")
  case (Inl e)
  with assms show ?thesis by (simp add: libfusn_extern_h_def)
next
  case (Inr s1)
  have "is_defined HAVE_LOCAL_LIBFUSN (macros s1)" if n: "R extern_h = None"
  proof (rule ccontr)
    assume a: "\<not> is_defined HAVE_LOCAL_LIBFUSN (macros s1)"
    have "libfusn_extern_h R s = Inl (Header_not_found extern_h)"
      by (simp only: header_shared [OF assms(1) Inr a] shared_branch_missing [of R s1, OF n])
    with assms(2) show False by simp
  qed
  with Inr show ?thesis by simp
qed

lemma include_times_guarded:
  "is_defined GUARD (macros s) \<Longrightarrow> include_times n R s = Inr s"
  by (induction n) (simp_all add: header_guarded)

lemma sample_headers_keep_guard: "headers_keep_guard all_headers"
  by (auto simp: headers_keep_guard_def all_headers_def keeps_guard_def plain_common_h_def
        sample_extern_h_def is_defined_def)

lemma prologue_macros:
  assumes "prologue R s = Inr s1"
  shows "\<exists>common. R common_h = Some common
           \<and> macros s1 = common ((macros s)(GUARD \<mapsto> Object_like []))"
proof (cases "R common_h")
  case None
  from prologue_fails [of R s, OF None] assms show ?thesis by (simp only: sum.distinct)
next
  case (Some common)
  then have "prologue R s = Inr ((define_macro GUARD (Object_like []) s)
      \<lparr>macros := common (macros (define_macro GUARD (Object_like []) s)),
        directives := directives (define_macro GUARD (Object_like []) s) @ [Include common_h]\<rparr>)"
    by (simp add: prologue_def include_header_def)
  with assms have "s1 = (define_macro GUARD (Object_like []) s)
      \<lparr>macros := common (macros (define_macro GUARD (Object_like []) s)),
        directives := directives (define_macro GUARD (Object_like []) s) @ [Include common_h]\<rparr>"
    by (simp only: sum.inject)
  then have "macros s1 = common ((macros s)(GUARD \<mapsto> Object_like []))"
    by (simp add: macros_define_macro)
  with Some show ?thesis by simp
qed

text \<open>After a successful inclusion the guard is defined, if the headers keep it.\<close>

lemma shared_branch_result:
  assumes "R extern_h = Some companion"
  shows "shared_branch R s1 =
     Inr (define_macro LIBFUSN_EXTERN_VARIABLE (Object_like [LIBFUSN_EXTERN])
       ((dll_export_block s1)
          \<lparr>macros := companion (macros (dll_export_block s1)),
            directives := directives (dll_export_block s1) @ [Include extern_h]\<rparr>))"
  using assms by (simp add: shared_branch_def include_header_def)

lemma dll_export_block_guard:
  "is_defined GUARD (macros s1) \<Longrightarrow> is_defined GUARD (macros (dll_export_block s1))"
  by (simp add: dll_export_block_def macros_define_macro is_defined_upd)

lemma header_defines_guard:
  assumes "libfusn_extern_h R s = Inr s'" and "headers_keep_guard R"
  shows "is_defined GUARD (macros s')"
proof (cases "is_defined GUARD (macros s)")
  case True
  then have "libfusn_extern_h R s = Inr s" by (rule header_guarded)
  with assms(1) have "s' = s" by (simp only: sum.inject)
  with True show ?thesis by (simp only:)
next
  case False
  from header_success_prologue [OF False assms(1)] obtain s1
    where p: "prologue R s = Inr s1"
      and x: "R extern_h = None \<longrightarrow> is_defined HAVE_LOCAL_LIBFUSN (macros s1)"
    by auto
  from prologue_macros [OF p] obtain common
    where c: "R common_h = Some common"
    by auto
  with assms(2) have "keeps_guard common"
    by (simp add: headers_keep_guard_def)
  from prologue_guard [OF p c this] have g1: "is_defined GUARD (macros s1)" .
  show ?thesis
  proof (cases "is_defined HAVE_LOCAL_LIBFUSN (macros s1)")
    case True
    from assms(1) [symmetric] header_local [OF False p True]
    have "Inr s' = (Inr (local_branch s1) :: pp_error + pp_state)" by (rule trans)
    then have "s' = local_branch s1" by (simp only: sum.inject)
    with g1 show ?thesis
      by (simp add: local_branch_macros is_defined_upd)
  next
    case nl: False
    with x obtain companion where e: "R extern_h = Some companion"
      by auto
    with assms(2) have k: "keeps_guard companion"
      by (simp add: headers_keep_guard_def)
    from dll_export_block_guard [OF g1] k
    have g2: "is_defined GUARD (companion (macros (dll_export_block s1)))"
      by (simp add: keeps_guard_def)
    from assms(1) [symmetric] header_shared [OF False p nl]
    have "Inr s' = shared_branch R s1" by (rule trans)
    then have "s' = define_macro LIBFUSN_EXTERN_VARIABLE (Object_like [LIBFUSN_EXTERN])
       ((dll_export_block s1)
          \<lparr>macros := companion (macros (dll_export_block s1)),
            directives := directives (dll_export_block s1) @ [Include extern_h]\<rparr>)"
      by (simp only: shared_branch_result [of R companion s1, OF e] sum.inject)
    then have "macros s' = (companion (macros (dll_export_block s1)))
        (LIBFUSN_EXTERN_VARIABLE \<mapsto> Object_like [LIBFUSN_EXTERN])"
      by (simp add: macros_define_macro)
    with g2 show ?thesis
      by (simp add: is_defined_upd)
  qed
qed

lemma header_once:
  "include_times 1 R s = libfusn_extern_h R s"
  by (cases "libfusn_extern_h R s") simp_all

lemma header_again:
  assumes "headers_keep_guard R"
  shows "include_times (Suc k) R s = libfusn_extern_h R s"
proof (cases "libfusn_extern_h R s")
  case (Inl e)
  then show ?thesis by simp
next
  case (Inr s')
  from header_defines_guard [OF Inr assms] have "include_times k R s' = Inr s'"
    by (rule include_times_guarded)
  with Inr show ?thesis by simp
qed

text \<open>What the companion header is given, and what it answers.\<close>

lemma header_shared_macros:
  assumes "\<not> is_defined GUARD (macros s)" and "prologue R s = Inr s1"
      and "\<not> is_defined HAVE_LOCAL_LIBFUSN (macros s1)"
      and "R extern_h = Some companion"
      and "libfusn_extern_h R s = Inr s'"
  shows "macros s' = (companion (macros (dll_export_block s1)))
           (LIBFUSN_EXTERN_VARIABLE \<mapsto> Object_like [LIBFUSN_EXTERN])"
proof -
  from assms(5) [symmetric] header_shared [OF assms(1,2,3)]
  have "Inr s' = shared_branch R s1" by (rule trans)
  then have "s' = define_macro LIBFUSN_EXTERN_VARIABLE (Object_like [LIBFUSN_EXTERN])
     ((dll_export_block s1)
        \<lparr>macros := companion (macros (dll_export_block s1)),
          directives := directives (dll_export_block s1) @ [Include extern_h]\<rparr>)"
    by (simp only: shared_branch_result [of R companion s1, OF assms(4)] sum.inject)
  then show ?thesis
    by (simp add: macros_define_macro)
qed

lemma dll_export_block_flag:
  "is_defined LIBFUSN_DLL_EXPORT (macros (dll_export_block s1)) \<longleftrightarrow>
     is_defined WIN32 (macros s1) \<and> is_defined DLL_EXPORT (macros s1)
     \<or> is_defined LIBFUSN_DLL_EXPORT (macros s1)"
  by (auto simp: dll_export_block_def macros_define_macro is_defined_upd)


lemma prologue_after_common:
  assumes "R common_h = Some common"
  shows "\<exists>s1. prologue R s = Inr s1
           \<and> macros s1 = after_common common s
           \<and> directives s1 = directives s @ [Define GUARD (Object_like []), Include common_h]"
  using assms
  by (simp add: prologue_def include_header_def define_macro_def after_common_def)

text \<open>The linkage modes exclude one another.\<close>

lemma linkage_local_only:
  assumes "macros s' =
      (macros s1)(LIBFUSN_EXTERN \<mapsto> Object_like [],
                 LIBFUSN_EXTERN_VARIABLE \<mapsto> Object_like [''extern''])"
  shows "linkage R s1 s' mode \<longleftrightarrow> mode = Local"
proof -
  from assms
  have v: "macros s' LIBFUSN_EXTERN_VARIABLE = Some (Object_like [''extern''])"
    by simp
  have "macros s' \<noteq> (m :: macro_table)(LIBFUSN_EXTERN_VARIABLE \<mapsto> Object_like [LIBFUSN_EXTERN])"
    for m
  proof
    assume "macros s' = m(LIBFUSN_EXTERN_VARIABLE \<mapsto> Object_like [LIBFUSN_EXTERN])"
    then have "macros s' LIBFUSN_EXTERN_VARIABLE = Some (Object_like [LIBFUSN_EXTERN])"
      by simp
    with v show False by simp
  qed
  with assms show ?thesis
    by (cases mode) simp_all
qed

lemma linkage_shared_only:
  assumes "R extern_h = Some companion"
      and "macros s' =
             (companion (macros (dll_export_block s1)))
               (LIBFUSN_EXTERN_VARIABLE \<mapsto> Object_like [LIBFUSN_EXTERN])"
  shows "linkage R s1 s' mode \<longleftrightarrow>
           mode = (if is_defined LIBFUSN_DLL_EXPORT (macros (dll_export_block s1))
                   then Dll_export else Dll_import)"
proof -
  from assms(2)
  have v: "macros s' LIBFUSN_EXTERN_VARIABLE = Some (Object_like [LIBFUSN_EXTERN])"
    by simp
  have n: "macros s' \<noteq>
      (macros s1)(LIBFUSN_EXTERN \<mapsto> Object_like [],
                 LIBFUSN_EXTERN_VARIABLE \<mapsto> Object_like [''extern''])"
  proof
    assume "macros s' =
      (macros s1)(LIBFUSN_EXTERN \<mapsto> Object_like [],
                 LIBFUSN_EXTERN_VARIABLE \<mapsto> Object_like [''extern''])"
    then have "macros s' LIBFUSN_EXTERN_VARIABLE = Some (Object_like [''extern''])"
      by simp
    with v show False by simp
  qed
  show ?thesis
  proof (cases mode)
    case Local
    with n show ?thesis by simp
  next
    case Dll_export
    with assms show ?thesis by simp
  next
    case Dll_import
    with assms show ?thesis by simp
  qed
qed

lemma linkage_local_annotation:
  assumes "linkage R s1 s' Local"
  shows "macros s' LIBFUSN_EXTERN = Some (Object_like [])
       \<and> macros s' LIBFUSN_EXTERN_VARIABLE = Some (Object_like [''extern''])"
proof -
  from assms have "macros s' =
      (macros s1)(LIBFUSN_EXTERN \<mapsto> Object_like [],
                 LIBFUSN_EXTERN_VARIABLE \<mapsto> Object_like [''extern''])"
    by (simp only: linkage.simps)
  then show ?thesis by simp
qed

lemma linkage_export_annotation:
  assumes "linkage R s1 s' Dll_export" and "R extern_h = Some companion"
      and "exports_on_flag companion ann"
  shows "macros s' LIBFUSN_EXTERN = Some ann"
proof -
  from assms(1)
  have "is_defined LIBFUSN_DLL_EXPORT (macros (dll_export_block s1))
      \<and> (\<exists>c. R extern_h = Some c
           \<and> macros s' =
               (c (macros (dll_export_block s1)))
                 (LIBFUSN_EXTERN_VARIABLE \<mapsto> Object_like [LIBFUSN_EXTERN]))"
    by (simp only: linkage.simps simp_thms)
  then have f: "is_defined LIBFUSN_DLL_EXPORT (macros (dll_export_block s1))"
    and "\<exists>c. R extern_h = Some c
           \<and> macros s' =
               (c (macros (dll_export_block s1)))
                 (LIBFUSN_EXTERN_VARIABLE \<mapsto> Object_like [LIBFUSN_EXTERN])"
    by (rule conjunct1, rule conjunct2)
  then obtain c where "R extern_h = Some c"
    and m: "macros s' = (c (macros (dll_export_block s1)))
              (LIBFUSN_EXTERN_VARIABLE \<mapsto> Object_like [LIBFUSN_EXTERN])"
    by auto
  with assms(2) have "c = companion" by simp
  with m have "macros s' LIBFUSN_EXTERN =
      companion (macros (dll_export_block s1)) LIBFUSN_EXTERN"
    by simp
  with assms(3) f show ?thesis
    by (simp add: exports_on_flag_def)
qed

lemma linkage_import_annotation:
  assumes "linkage R s1 s' Dll_import" and "R extern_h = Some companion"
      and "imports_without_flag companion ann"
  shows "macros s' LIBFUSN_EXTERN = Some ann"
proof -
  from assms(1)
  have "\<not> is_defined LIBFUSN_DLL_EXPORT (macros (dll_export_block s1))
      \<and> (\<exists>c. R extern_h = Some c
           \<and> macros s' =
               (c (macros (dll_export_block s1)))
                 (LIBFUSN_EXTERN_VARIABLE \<mapsto> Object_like [LIBFUSN_EXTERN]))"
    by (simp only: linkage.simps simp_thms)
  then have f: "\<not> is_defined LIBFUSN_DLL_EXPORT (macros (dll_export_block s1))"
    and "\<exists>c. R extern_h = Some c
           \<and> macros s' =
               (c (macros (dll_export_block s1)))
                 (LIBFUSN_EXTERN_VARIABLE \<mapsto> Object_like [LIBFUSN_EXTERN])"
    by (rule conjunct1, rule conjunct2)
  then obtain c where "R extern_h = Some c"
    and m: "macros s' = (c (macros (dll_export_block s1)))
              (LIBFUSN_EXTERN_VARIABLE \<mapsto> Object_like [LIBFUSN_EXTERN])"
    by auto
  with assms(2) have "c = companion" by simp
  with m have "macros s' LIBFUSN_EXTERN =
      companion (macros (dll_export_block s1)) LIBFUSN_EXTERN"
    by simp
  with assms(3) f show ?thesis
    by (simp add: imports_without_flag_def)
qed

text \<open>The definitions that evaluate the header on a sample configuration.\<close>

lemmas eval_defs = libfusn_extern_h_def prologue_def shared_branch_def dll_export_block_def
  local_branch_def include_header_def define_macro_def initial_state_def predefined_def
  is_defined_def all_headers_def only_common_h_def plain_common_h_def sample_extern_h_def
  final_definition_def export_annotation_def import_annotation_def

section \<open>Local builds\<close>

text \<open>
  C3. In every build configuration in which \<^verbatim>\<open>HAVE_LOCAL_LIBFUSN\<close> is defined when the
  header tests it, the header succeeds and leaves \<^verbatim>\<open>LIBFUSN_EXTERN\<close> defined with an
  empty replacement list and \<^verbatim>\<open>LIBFUSN_EXTERN_VARIABLE\<close> defined as the single token
  \<^verbatim>\<open>extern\<close>.
\<close>

theorem local_build_definitions:
  assumes "\<not> is_defined GUARD (macros s)"
      and "prologue R s = Inr s1"
      and "is_defined HAVE_LOCAL_LIBFUSN (macros s1)"
  shows "\<exists>s'. libfusn_extern_h R s = Inr s'
           \<and> macros s' LIBFUSN_EXTERN = Some (Object_like [])
           \<and> macros s' LIBFUSN_EXTERN_VARIABLE = Some (Object_like [''extern''])"
  using header_local [OF assms] by (simp add: local_branch_macros)

theorem local_build_definitions_witness:
  "\<exists>s1. \<not> is_defined GUARD (macros (initial_state [HAVE_LOCAL_LIBFUSN]))
      \<and> prologue only_common_h (initial_state [HAVE_LOCAL_LIBFUSN]) = Inr s1
      \<and> is_defined HAVE_LOCAL_LIBFUSN (macros s1)
      \<and> (\<exists>s'. libfusn_extern_h only_common_h (initial_state [HAVE_LOCAL_LIBFUSN]) = Inr s'
            \<and> macros s' LIBFUSN_EXTERN = Some (Object_like [])
            \<and> macros s' LIBFUSN_EXTERN_VARIABLE = Some (Object_like [''extern'']))"
proof -
  let ?s = "initial_state [HAVE_LOCAL_LIBFUSN]"
  have g: "\<not> is_defined GUARD (macros ?s)"
    by (simp add: initial_state_fresh)
  obtain s1 where p: "prologue only_common_h ?s = Inr s1"
    and m: "macros s1 = (predefined [HAVE_LOCAL_LIBFUSN])(GUARD \<mapsto> Object_like [])"
    using prologue_initial_state [of only_common_h] by (auto simp: only_common_h_def)
  have h: "is_defined HAVE_LOCAL_LIBFUSN (macros s1)"
    by (simp add: m is_defined_upd is_defined_predefined)
  from local_build_definitions [OF g p h] g p h show ?thesis by blast
qed

text \<open>
  C4. In every build configuration in which \<^verbatim>\<open>HAVE_LOCAL_LIBFUSN\<close> is defined when the
  header tests it, processing succeeds whatever the resolver says about
  \<^verbatim>\<open>libfusn/extern.h\<close> (the file may be absent): the header executes the guard's
  definition, the inclusion of \<^verbatim>\<open>common.h\<close> and its two local definitions, never an
  inclusion of the companion header, and \<^verbatim>\<open>LIBFUSN_EXTERN\<close> carries no annotation.
\<close>

theorem local_build_skips_companion:
  assumes "\<not> is_defined GUARD (macros s)"
      and "prologue R s = Inr s1"
      and "is_defined HAVE_LOCAL_LIBFUSN (macros s1)"
  shows "\<exists>s'. libfusn_extern_h R s = Inr s'
           \<and> performed s s' =
               [Define GUARD (Object_like []), Include common_h,
                Define LIBFUSN_EXTERN (Object_like []),
                Define LIBFUSN_EXTERN_VARIABLE (Object_like [''extern''])]
           \<and> Include extern_h \<notin> set (performed s s')
           \<and> macros s' LIBFUSN_EXTERN = Some (Object_like [])"
proof -
  have d: "directives (local_branch s1) = directives s @
      [Define GUARD (Object_like []), Include common_h,
       Define LIBFUSN_EXTERN (Object_like []),
       Define LIBFUSN_EXTERN_VARIABLE (Object_like [''extern''])]"
    by (simp add: local_branch_directives prologue_directives [OF assms(2)])
  show ?thesis
    using header_local [OF assms] performed_append [OF d]
    by (simp add: local_branch_macros)
qed

theorem local_build_skips_companion_witness:
  "\<exists>s1. only_common_h extern_h = None
      \<and> \<not> is_defined GUARD (macros (initial_state [HAVE_LOCAL_LIBFUSN]))
      \<and> prologue only_common_h (initial_state [HAVE_LOCAL_LIBFUSN]) = Inr s1
      \<and> is_defined HAVE_LOCAL_LIBFUSN (macros s1)
      \<and> (\<exists>s'. libfusn_extern_h only_common_h (initial_state [HAVE_LOCAL_LIBFUSN]) = Inr s'
            \<and> Include extern_h \<notin> set (performed (initial_state [HAVE_LOCAL_LIBFUSN]) s')
            \<and> macros s' LIBFUSN_EXTERN = Some (Object_like []))"
proof -
  let ?s = "initial_state [HAVE_LOCAL_LIBFUSN]"
  have n: "only_common_h extern_h = None"
    by (simp add: only_common_h_def)
  have g: "\<not> is_defined GUARD (macros ?s)"
    by (simp add: initial_state_fresh)
  obtain s1 where p: "prologue only_common_h ?s = Inr s1"
    and m: "macros s1 = (predefined [HAVE_LOCAL_LIBFUSN])(GUARD \<mapsto> Object_like [])"
    using prologue_initial_state [of only_common_h] by (auto simp: only_common_h_def)
  have h: "is_defined HAVE_LOCAL_LIBFUSN (macros s1)"
    by (simp add: m is_defined_upd is_defined_predefined)
  from local_build_skips_companion [OF g p h] n g p h show ?thesis by blast
qed

text \<open>
  C10. \<^verbatim>\<open>HAVE_LOCAL_LIBFUSN\<close> takes precedence over the Windows export condition: when it
  is defined together with \<^verbatim>\<open>_WIN32\<close> and \<^verbatim>\<open>DLL_EXPORT\<close>, the header executes no
  definition of \<^verbatim>\<open>LIBFUSN_DLL_EXPORT\<close> and leaves that symbol as it found it (so
  undefined, unless the build had defined it elsewhere), \<^verbatim>\<open>LIBFUSN_EXTERN\<close> carries no
  annotation, and the mode selected is the local one and not the export one.
\<close>

theorem local_overrides_dll_export:
  assumes "\<not> is_defined GUARD (macros s)"
      and "prologue R s = Inr s1"
      and "is_defined HAVE_LOCAL_LIBFUSN (macros s1)"
      and "is_defined WIN32 (macros s1)"
      and "is_defined DLL_EXPORT (macros s1)"
  shows "\<exists>s'. libfusn_extern_h R s = Inr s'
           \<and> (\<forall>body. Define LIBFUSN_DLL_EXPORT body \<notin> set (performed s s'))
           \<and> macros s' LIBFUSN_DLL_EXPORT = macros s1 LIBFUSN_DLL_EXPORT
           \<and> macros s' LIBFUSN_EXTERN = Some (Object_like [])
           \<and> selects (performed s s') Local
           \<and> \<not> selects (performed s s') Dll_export"
proof -
  have d: "directives (local_branch s1) = directives s @
      [Define GUARD (Object_like []), Include common_h,
       Define LIBFUSN_EXTERN (Object_like []),
       Define LIBFUSN_EXTERN_VARIABLE (Object_like [''extern''])]"
    by (simp add: local_branch_directives prologue_directives [OF assms(2)])
  show ?thesis
    using header_local [OF assms(1-3)] performed_append [OF d]
    by (simp add: local_branch_macros)
qed

theorem local_overrides_dll_export_witness:
  "\<exists>s1. \<not> is_defined GUARD
            (macros (initial_state [HAVE_LOCAL_LIBFUSN, WIN32, DLL_EXPORT]))
      \<and> prologue only_common_h (initial_state [HAVE_LOCAL_LIBFUSN, WIN32, DLL_EXPORT])
          = Inr s1
      \<and> is_defined HAVE_LOCAL_LIBFUSN (macros s1)
      \<and> is_defined WIN32 (macros s1)
      \<and> is_defined DLL_EXPORT (macros s1)
      \<and> (\<exists>s'. libfusn_extern_h only_common_h
                 (initial_state [HAVE_LOCAL_LIBFUSN, WIN32, DLL_EXPORT]) = Inr s'
            \<and> \<not> is_defined LIBFUSN_DLL_EXPORT (macros s')
            \<and> macros s' LIBFUSN_EXTERN = Some (Object_like [])
            \<and> selects (performed (initial_state [HAVE_LOCAL_LIBFUSN, WIN32, DLL_EXPORT]) s')
                 Local)"
proof -
  let ?s = "initial_state [HAVE_LOCAL_LIBFUSN, WIN32, DLL_EXPORT]"
  have g: "\<not> is_defined GUARD (macros ?s)"
    by (simp add: initial_state_fresh)
  obtain s1 where p: "prologue only_common_h ?s = Inr s1"
    and m: "macros s1 =
      (predefined [HAVE_LOCAL_LIBFUSN, WIN32, DLL_EXPORT])(GUARD \<mapsto> Object_like [])"
    using prologue_initial_state [of only_common_h] by (auto simp: only_common_h_def)
  have h: "is_defined HAVE_LOCAL_LIBFUSN (macros s1)"
    and w: "is_defined WIN32 (macros s1)"
    and e: "is_defined DLL_EXPORT (macros s1)"
    and u: "macros s1 LIBFUSN_DLL_EXPORT = None"
    by (simp_all add: m is_defined_upd is_defined_predefined predefined_def)
  from local_overrides_dll_export [OF g p h w e] obtain s'
    where r: "libfusn_extern_h only_common_h ?s = Inr s'"
      and x: "macros s' LIBFUSN_DLL_EXPORT = macros s1 LIBFUSN_DLL_EXPORT"
      and l: "macros s' LIBFUSN_EXTERN = Some (Object_like [])"
      and c: "selects (performed ?s s') Local"
    by blast
  from x u have "\<not> is_defined LIBFUSN_DLL_EXPORT (macros s')"
    by (simp add: is_defined_def)
  with g p h w e r l c show ?thesis by blast
qed

section \<open>Shared builds\<close>

text \<open>
  C1. In every build configuration in which, when the header tests them,
  \<^verbatim>\<open>HAVE_LOCAL_LIBFUSN\<close> is undefined and \<^verbatim>\<open>_WIN32\<close> and \<^verbatim>\<open>DLL_EXPORT\<close> are both defined,
  the header defines \<^verbatim>\<open>LIBFUSN_DLL_EXPORT\<close> and only then includes \<^verbatim>\<open>libfusn/extern.h\<close>:
  the companion header is processed on a table in which \<^verbatim>\<open>LIBFUSN_DLL_EXPORT\<close> is
  defined, so a companion header that answers that symbol with the export annotation
  leaves \<^verbatim>\<open>LIBFUSN_EXTERN\<close> defined as the export annotation.
\<close>

theorem dll_export_defined_before_companion:
  assumes "\<not> is_defined GUARD (macros s)"
      and "prologue R s = Inr s1"
      and "R extern_h = Some companion"
      and "\<not> is_defined HAVE_LOCAL_LIBFUSN (macros s1)"
      and "is_defined WIN32 (macros s1)"
      and "is_defined DLL_EXPORT (macros s1)"
  shows "\<exists>s'. libfusn_extern_h R s = Inr s'
           \<and> performed s s' =
               [Define GUARD (Object_like []), Include common_h,
                Define LIBFUSN_DLL_EXPORT (Object_like []), Include extern_h,
                Define LIBFUSN_EXTERN_VARIABLE (Object_like [LIBFUSN_EXTERN])]
           \<and> macros s' =
               (companion (macros (dll_export_block s1)))
                 (LIBFUSN_EXTERN_VARIABLE \<mapsto> Object_like [LIBFUSN_EXTERN])
           \<and> is_defined LIBFUSN_DLL_EXPORT (macros (dll_export_block s1))
           \<and> (\<forall>ann. exports_on_flag companion ann \<longrightarrow>
                 macros s' LIBFUSN_EXTERN = Some ann)"
proof -
  from shared_branch_export [of R companion s1, OF assms(3,5,6)] obtain s'
    where r: "shared_branch R s1 = Inr s'"
      and d: "directives s' = directives s1 @
                [Define LIBFUSN_DLL_EXPORT (Object_like []), Include extern_h,
                 Define LIBFUSN_EXTERN_VARIABLE (Object_like [LIBFUSN_EXTERN])]"
      and m: "macros s' =
                (companion ((macros s1)(LIBFUSN_DLL_EXPORT \<mapsto> Object_like [])))
                  (LIBFUSN_EXTERN_VARIABLE \<mapsto> Object_like [LIBFUSN_EXTERN])"
    by blast
  have h: "libfusn_extern_h R s = Inr s'"
    using header_shared [OF assms(1,2,4)] r by simp
  have "directives s' = directives s @
      [Define GUARD (Object_like []), Include common_h,
       Define LIBFUSN_DLL_EXPORT (Object_like []), Include extern_h,
       Define LIBFUSN_EXTERN_VARIABLE (Object_like [LIBFUSN_EXTERN])]"
    by (simp add: d prologue_directives [OF assms(2)])
  then have p: "performed s s' =
      [Define GUARD (Object_like []), Include common_h,
       Define LIBFUSN_DLL_EXPORT (Object_like []), Include extern_h,
       Define LIBFUSN_EXTERN_VARIABLE (Object_like [LIBFUSN_EXTERN])]"
    by (rule performed_append)
  have b: "macros (dll_export_block s1) =
      (macros s1)(LIBFUSN_DLL_EXPORT \<mapsto> Object_like [])"
    using assms(5,6) by (simp add: dll_export_block_def macros_define_macro)
  have f: "is_defined LIBFUSN_DLL_EXPORT (macros (dll_export_block s1))"
    by (simp add: b is_defined_def)
  have m': "macros s' = (companion (macros (dll_export_block s1)))
      (LIBFUSN_EXTERN_VARIABLE \<mapsto> Object_like [LIBFUSN_EXTERN])"
    by (simp only: m b)
  have "\<forall>ann. exports_on_flag companion ann \<longrightarrow> macros s' LIBFUSN_EXTERN = Some ann"
    using f by (simp add: m' exports_on_flag_def)
  with h p m' f show ?thesis by simp
qed

theorem dll_export_defined_before_companion_witness:
  "\<exists>s1. \<not> is_defined GUARD (macros (initial_state [WIN32, DLL_EXPORT]))
      \<and> prologue all_headers (initial_state [WIN32, DLL_EXPORT]) = Inr s1
      \<and> all_headers extern_h = Some sample_extern_h
      \<and> \<not> is_defined HAVE_LOCAL_LIBFUSN (macros s1)
      \<and> is_defined WIN32 (macros s1)
      \<and> is_defined DLL_EXPORT (macros s1)
      \<and> exports_on_flag sample_extern_h export_annotation
      \<and> (\<exists>s'. libfusn_extern_h all_headers (initial_state [WIN32, DLL_EXPORT]) = Inr s'
            \<and> performed (initial_state [WIN32, DLL_EXPORT]) s' =
                [Define GUARD (Object_like []), Include common_h,
                 Define LIBFUSN_DLL_EXPORT (Object_like []), Include extern_h,
                 Define LIBFUSN_EXTERN_VARIABLE (Object_like [LIBFUSN_EXTERN])]
            \<and> macros s' LIBFUSN_EXTERN = Some export_annotation)"
proof -
  let ?s = "initial_state [WIN32, DLL_EXPORT]"
  have g: "\<not> is_defined GUARD (macros ?s)"
    by (simp add: initial_state_fresh)
  have c: "all_headers extern_h = Some sample_extern_h"
    by (simp add: all_headers_def)
  obtain s1 where p: "prologue all_headers ?s = Inr s1"
    and m: "macros s1 = (predefined [WIN32, DLL_EXPORT])(GUARD \<mapsto> Object_like [])"
    using prologue_initial_state [of all_headers] by (auto simp: all_headers_def)
  have h: "\<not> is_defined HAVE_LOCAL_LIBFUSN (macros s1)"
    and w: "is_defined WIN32 (macros s1)"
    and e: "is_defined DLL_EXPORT (macros s1)"
    by (simp_all add: m is_defined_upd is_defined_predefined)
  note x = sample_extern_h_exports
  from dll_export_defined_before_companion [OF g p c h w e] x g p c h w e
  show ?thesis by blast
qed

text \<open>
  C2 as stated fails. In a build that defines \<^verbatim>\<open>_WIN32\<close> and \<^verbatim>\<open>LIBFUSN_DLL_EXPORT\<close>
  but not \<^verbatim>\<open>DLL_EXPORT\<close> or \<^verbatim>\<open>HAVE_LOCAL_LIBFUSN\<close>, the tests of lines 29 and 34
  find \<^verbatim>\<open>HAVE_LOCAL_LIBFUSN\<close> and \<^verbatim>\<open>DLL_EXPORT\<close> undefined, yet
  \<^verbatim>\<open>LIBFUSN_DLL_EXPORT\<close> is defined when \<^verbatim>\<open>libfusn/extern.h\<close> is included, since
  the header never undefines it, and the sample companion header answers with the
  export annotation.
\<close>

theorem predefined_flag_counterexample:
  "final_definition HAVE_LOCAL_LIBFUSN
       (prologue all_headers (initial_state [WIN32, LIBFUSN_DLL_EXPORT])) = Inr None
   \<and> final_definition DLL_EXPORT
       (prologue all_headers (initial_state [WIN32, LIBFUSN_DLL_EXPORT])) = Inr None
   \<and> final_definition LIBFUSN_DLL_EXPORT
       (prologue all_headers (initial_state [WIN32, LIBFUSN_DLL_EXPORT])) =
       Inr (Some (Object_like [''1'']))
   \<and> final_definition LIBFUSN_DLL_EXPORT
       (libfusn_extern_h all_headers (initial_state [WIN32, LIBFUSN_DLL_EXPORT])) =
       Inr (Some (Object_like [''1'']))
   \<and> final_definition LIBFUSN_EXTERN
       (libfusn_extern_h all_headers (initial_state [WIN32, LIBFUSN_DLL_EXPORT])) =
       Inr (Some (Object_like [''__declspec(dllexport)'']))"
  by (simp add: eval_defs)

text \<open>
  C2, amended. In every build configuration in which, when the header tests them,
  \<^verbatim>\<open>HAVE_LOCAL_LIBFUSN\<close> is undefined and \<^verbatim>\<open>_WIN32\<close> and \<^verbatim>\<open>DLL_EXPORT\<close> are not both
  defined, the header executes no definition of \<^verbatim>\<open>LIBFUSN_DLL_EXPORT\<close> before it
  includes \<^verbatim>\<open>libfusn/extern.h\<close>: the companion header is processed on the table exactly
  as \<^verbatim>\<open>common.h\<close> left it. So if \<^verbatim>\<open>LIBFUSN_DLL_EXPORT\<close> was not already defined, it is
  undefined at the inclusion, and a companion header that answers its absence with the
  import annotation leaves \<^verbatim>\<open>LIBFUSN_EXTERN\<close> defined as the import annotation.
\<close>

theorem dll_export_left_undefined:
  assumes "\<not> is_defined GUARD (macros s)"
      and "prologue R s = Inr s1"
      and "R extern_h = Some companion"
      and "\<not> is_defined HAVE_LOCAL_LIBFUSN (macros s1)"
      and "\<not> (is_defined WIN32 (macros s1) \<and> is_defined DLL_EXPORT (macros s1))"
  shows "\<exists>s'. libfusn_extern_h R s = Inr s'
           \<and> performed s s' =
               [Define GUARD (Object_like []), Include common_h, Include extern_h,
                Define LIBFUSN_EXTERN_VARIABLE (Object_like [LIBFUSN_EXTERN])]
           \<and> (\<forall>body. Define LIBFUSN_DLL_EXPORT body \<notin> set (performed s s'))
           \<and> macros s' =
               (companion (macros (dll_export_block s1)))
                 (LIBFUSN_EXTERN_VARIABLE \<mapsto> Object_like [LIBFUSN_EXTERN])
           \<and> macros (dll_export_block s1) = macros s1
           \<and> (\<not> is_defined LIBFUSN_DLL_EXPORT (macros s1) \<longrightarrow>
                \<not> is_defined LIBFUSN_DLL_EXPORT (macros (dll_export_block s1))
                \<and> (\<forall>ann. imports_without_flag companion ann \<longrightarrow>
                     macros s' LIBFUSN_EXTERN = Some ann))"
proof -
  from shared_branch_import [of R companion s1, OF assms(3,5)] obtain s'
    where r: "shared_branch R s1 = Inr s'"
      and d: "directives s' = directives s1 @
                [Include extern_h,
                 Define LIBFUSN_EXTERN_VARIABLE (Object_like [LIBFUSN_EXTERN])]"
      and m: "macros s' =
                (companion (macros s1))
                  (LIBFUSN_EXTERN_VARIABLE \<mapsto> Object_like [LIBFUSN_EXTERN])"
    by blast
  have h: "libfusn_extern_h R s = Inr s'"
    using header_shared [OF assms(1,2,4)] r by simp
  have "directives s' = directives s @
      [Define GUARD (Object_like []), Include common_h, Include extern_h,
       Define LIBFUSN_EXTERN_VARIABLE (Object_like [LIBFUSN_EXTERN])]"
    by (simp add: d prologue_directives [OF assms(2)])
  then have p: "performed s s' =
      [Define GUARD (Object_like []), Include common_h, Include extern_h,
       Define LIBFUSN_EXTERN_VARIABLE (Object_like [LIBFUSN_EXTERN])]"
    by (rule performed_append)
  have n: "\<forall>body. Define LIBFUSN_DLL_EXPORT body \<notin> set (performed s s')"
    by (simp add: p)
  have b: "macros (dll_export_block s1) = macros s1"
    using assms(5) by (auto simp: dll_export_block_def)
  have m': "macros s' = (companion (macros (dll_export_block s1)))
      (LIBFUSN_EXTERN_VARIABLE \<mapsto> Object_like [LIBFUSN_EXTERN])"
    by (simp only: m b)
  have "\<not> is_defined LIBFUSN_DLL_EXPORT (macros s1) \<longrightarrow>
      \<not> is_defined LIBFUSN_DLL_EXPORT (macros (dll_export_block s1))
      \<and> (\<forall>ann. imports_without_flag companion ann \<longrightarrow> macros s' LIBFUSN_EXTERN = Some ann)"
    by (simp add: m b imports_without_flag_def)
  with h p n m' b show ?thesis by simp
qed

theorem dll_export_left_undefined_witness:
  "\<exists>s1. \<not> is_defined GUARD (macros (initial_state [DLL_EXPORT]))
      \<and> prologue all_headers (initial_state [DLL_EXPORT]) = Inr s1
      \<and> all_headers extern_h = Some sample_extern_h
      \<and> \<not> is_defined HAVE_LOCAL_LIBFUSN (macros s1)
      \<and> \<not> (is_defined WIN32 (macros s1) \<and> is_defined DLL_EXPORT (macros s1))
      \<and> \<not> is_defined LIBFUSN_DLL_EXPORT (macros s1)
      \<and> imports_without_flag sample_extern_h import_annotation
      \<and> (\<exists>s'. libfusn_extern_h all_headers (initial_state [DLL_EXPORT]) = Inr s'
            \<and> performed (initial_state [DLL_EXPORT]) s' =
                [Define GUARD (Object_like []), Include common_h, Include extern_h,
                 Define LIBFUSN_EXTERN_VARIABLE (Object_like [LIBFUSN_EXTERN])]
            \<and> macros s' LIBFUSN_EXTERN = Some import_annotation)"
proof -
  let ?s = "initial_state [DLL_EXPORT]"
  have g: "\<not> is_defined GUARD (macros ?s)"
    by (simp add: initial_state_fresh)
  have c: "all_headers extern_h = Some sample_extern_h"
    by (simp add: all_headers_def)
  obtain s1 where p: "prologue all_headers ?s = Inr s1"
    and m: "macros s1 = (predefined [DLL_EXPORT])(GUARD \<mapsto> Object_like [])"
    using prologue_initial_state [of all_headers] by (auto simp: all_headers_def)
  have h: "\<not> is_defined HAVE_LOCAL_LIBFUSN (macros s1)"
    and w: "\<not> (is_defined WIN32 (macros s1) \<and> is_defined DLL_EXPORT (macros s1))"
    and u: "\<not> is_defined LIBFUSN_DLL_EXPORT (macros s1)"
    by (simp_all add: m is_defined_upd is_defined_predefined)
  note x = sample_extern_h_imports
  from dll_export_left_undefined [OF g p c h w] x u g p c h w
  show ?thesis by blast
qed

text \<open>
  C8. In every build configuration in which \<^verbatim>\<open>HAVE_LOCAL_LIBFUSN\<close> is undefined when the
  header tests it, whether exporting or importing, the header's last directive defines
  \<^verbatim>\<open>LIBFUSN_EXTERN_VARIABLE\<close> as the single token \<^verbatim>\<open>LIBFUSN_EXTERN\<close>, and the companion
  header's definition of \<^verbatim>\<open>LIBFUSN_EXTERN\<close> is left in place: the annotation of variables
  is the annotation of functions.
\<close>

theorem extern_variable_is_extern:
  assumes "\<not> is_defined GUARD (macros s)"
      and "prologue R s = Inr s1"
      and "R extern_h = Some companion"
      and "\<not> is_defined HAVE_LOCAL_LIBFUSN (macros s1)"
  shows "\<exists>s'. libfusn_extern_h R s = Inr s'
           \<and> macros s' LIBFUSN_EXTERN_VARIABLE = Some (Object_like [LIBFUSN_EXTERN])
           \<and> last (performed s s') =
               Define LIBFUSN_EXTERN_VARIABLE (Object_like [LIBFUSN_EXTERN])
           \<and> macros s' LIBFUSN_EXTERN =
               companion (macros (dll_export_block s1)) LIBFUSN_EXTERN"
proof (cases "is_defined WIN32 (macros s1) \<and> is_defined DLL_EXPORT (macros s1)")
  case True
  then have w: "is_defined WIN32 (macros s1)" and e: "is_defined DLL_EXPORT (macros s1)"
    by simp_all
  from shared_branch_export [of R companion s1, OF assms(3) w e] obtain s'
    where r: "shared_branch R s1 = Inr s'"
      and d: "directives s' = directives s1 @
                [Define LIBFUSN_DLL_EXPORT (Object_like []), Include extern_h,
                 Define LIBFUSN_EXTERN_VARIABLE (Object_like [LIBFUSN_EXTERN])]"
      and m: "macros s' =
                (companion ((macros s1)(LIBFUSN_DLL_EXPORT \<mapsto> Object_like [])))
                  (LIBFUSN_EXTERN_VARIABLE \<mapsto> Object_like [LIBFUSN_EXTERN])"
    by blast
  have "directives s' = directives s @
      [Define GUARD (Object_like []), Include common_h,
       Define LIBFUSN_DLL_EXPORT (Object_like []), Include extern_h,
       Define LIBFUSN_EXTERN_VARIABLE (Object_like [LIBFUSN_EXTERN])]"
    by (simp add: d prologue_directives [OF assms(2)])
  then have "performed s s' =
      [Define GUARD (Object_like []), Include common_h,
       Define LIBFUSN_DLL_EXPORT (Object_like []), Include extern_h,
       Define LIBFUSN_EXTERN_VARIABLE (Object_like [LIBFUSN_EXTERN])]"
    by (rule performed_append)
  moreover have "macros (dll_export_block s1) =
      (macros s1)(LIBFUSN_DLL_EXPORT \<mapsto> Object_like [])"
    using True by (simp add: dll_export_block_def macros_define_macro)
  ultimately show ?thesis
    using header_shared [OF assms(1,2,4)] r by (simp add: m)
next
  case False
  from shared_branch_import [of R companion s1, OF assms(3) False] obtain s'
    where r: "shared_branch R s1 = Inr s'"
      and d: "directives s' = directives s1 @
                [Include extern_h,
                 Define LIBFUSN_EXTERN_VARIABLE (Object_like [LIBFUSN_EXTERN])]"
      and m: "macros s' =
                (companion (macros s1))
                  (LIBFUSN_EXTERN_VARIABLE \<mapsto> Object_like [LIBFUSN_EXTERN])"
    by blast
  have "directives s' = directives s @
      [Define GUARD (Object_like []), Include common_h, Include extern_h,
       Define LIBFUSN_EXTERN_VARIABLE (Object_like [LIBFUSN_EXTERN])]"
    by (simp add: d prologue_directives [OF assms(2)])
  then have "performed s s' =
      [Define GUARD (Object_like []), Include common_h, Include extern_h,
       Define LIBFUSN_EXTERN_VARIABLE (Object_like [LIBFUSN_EXTERN])]"
    by (rule performed_append)
  moreover have "macros (dll_export_block s1) = macros s1"
    using False by (auto simp: dll_export_block_def)
  ultimately show ?thesis
    using header_shared [OF assms(1,2,4)] r by (simp add: m)
qed

theorem extern_variable_is_extern_witness:
  "\<exists>s1. \<not> is_defined GUARD (macros (initial_state [WIN32]))
      \<and> prologue all_headers (initial_state [WIN32]) = Inr s1
      \<and> all_headers extern_h = Some sample_extern_h
      \<and> \<not> is_defined HAVE_LOCAL_LIBFUSN (macros s1)
      \<and> (\<exists>s'. libfusn_extern_h all_headers (initial_state [WIN32]) = Inr s'
            \<and> macros s' LIBFUSN_EXTERN_VARIABLE = Some (Object_like [LIBFUSN_EXTERN]))"
proof -
  let ?s = "initial_state [WIN32]"
  have g: "\<not> is_defined GUARD (macros ?s)"
    by (simp add: initial_state_fresh)
  have c: "all_headers extern_h = Some sample_extern_h"
    by (simp add: all_headers_def)
  obtain s1 where p: "prologue all_headers ?s = Inr s1"
    and m: "macros s1 = (predefined [WIN32])(GUARD \<mapsto> Object_like [])"
    using prologue_initial_state [of all_headers] by (auto simp: all_headers_def)
  have h: "\<not> is_defined HAVE_LOCAL_LIBFUSN (macros s1)"
    by (simp add: m is_defined_upd is_defined_predefined)
  from extern_variable_is_extern [OF g p c h] g p c h
  show ?thesis by blast
qed

section \<open>The include of common.h\<close>

text \<open>
  C9. Whenever the header is processed (the guard is not yet defined), in every build
  configuration, local ones included, it includes \<^verbatim>\<open>common.h\<close> as its second directive
  and evaluates its conditionals on the table that \<^verbatim>\<open>common.h\<close> leaves. If \<^verbatim>\<open>common.h\<close>
  is not found, processing fails with that error. If it is found and leaves
  \<^verbatim>\<open>HAVE_LOCAL_LIBFUSN\<close> defined, processing succeeds without the companion header and
  the result is the table \<^verbatim>\<open>common.h\<close> left with the two local definitions. If it
  leaves \<^verbatim>\<open>HAVE_LOCAL_LIBFUSN\<close> undefined, a missing \<^verbatim>\<open>libfusn/extern.h\<close> is an error, and
  otherwise the companion header is processed on the table \<^verbatim>\<open>common.h\<close> left (with
  \<^verbatim>\<open>LIBFUSN_DLL_EXPORT\<close> added in the libtool case). Only \<^verbatim>\<open>libfusn/extern.h\<close> is exempt
  in local builds.
\<close>

theorem common_h_always_included:
  assumes "\<not> is_defined GUARD (macros s)"
  shows "(R common_h = None \<longrightarrow> libfusn_extern_h R s = Inl (Header_not_found common_h))
       \<and> (\<forall>common. R common_h = Some common \<longrightarrow>
            (is_defined HAVE_LOCAL_LIBFUSN (after_common common s) \<longrightarrow>
               (\<exists>s'. libfusn_extern_h R s = Inr s'
                  \<and> performed s s' =
                      [Define GUARD (Object_like []), Include common_h,
                       Define LIBFUSN_EXTERN (Object_like []),
                       Define LIBFUSN_EXTERN_VARIABLE (Object_like [''extern''])]
                  \<and> macros s' =
                      (after_common common s)
                        (LIBFUSN_EXTERN \<mapsto> Object_like [],
                         LIBFUSN_EXTERN_VARIABLE \<mapsto> Object_like [''extern''])))
          \<and> (\<not> is_defined HAVE_LOCAL_LIBFUSN (after_common common s) \<longrightarrow>
               (R extern_h = None \<longrightarrow>
                  libfusn_extern_h R s = Inl (Header_not_found extern_h))
             \<and> (\<forall>companion. R extern_h = Some companion \<longrightarrow>
                  (\<exists>s'. libfusn_extern_h R s = Inr s'
                     \<and> take 2 (performed s s') =
                         [Define GUARD (Object_like []), Include common_h]
                     \<and> macros s' =
                         (companion
                            (if is_defined WIN32 (after_common common s)
                                \<and> is_defined DLL_EXPORT (after_common common s)
                             then (after_common common s)
                                    (LIBFUSN_DLL_EXPORT \<mapsto> Object_like [])
                             else after_common common s))
                           (LIBFUSN_EXTERN_VARIABLE \<mapsto> Object_like [LIBFUSN_EXTERN])))))"
proof (intro conjI impI allI)
  assume "R common_h = None"
  from prologue_fails [of R s, OF this] assms
  show "libfusn_extern_h R s = Inl (Header_not_found common_h)"
    by (simp add: libfusn_extern_h_def)
next
  fix common
  assume c: "R common_h = Some common"
    and h: "is_defined HAVE_LOCAL_LIBFUSN (after_common common s)"
  from prologue_after_common [of R common s, OF c] obtain s1
    where p: "prologue R s = Inr s1"
      and m: "macros s1 = after_common common s"
      and d: "directives s1 = directives s @ [Define GUARD (Object_like []), Include common_h]"
    by auto
  from h m have h1: "is_defined HAVE_LOCAL_LIBFUSN (macros s1)"
    by simp
  have "directives (local_branch s1) = directives s @
      [Define GUARD (Object_like []), Include common_h,
       Define LIBFUSN_EXTERN (Object_like []),
       Define LIBFUSN_EXTERN_VARIABLE (Object_like [''extern''])]"
    by (simp add: local_branch_directives d)
  from performed_append [OF this] header_local [OF assms p h1]
  show "\<exists>s'. libfusn_extern_h R s = Inr s'
      \<and> performed s s' =
          [Define GUARD (Object_like []), Include common_h,
           Define LIBFUSN_EXTERN (Object_like []),
           Define LIBFUSN_EXTERN_VARIABLE (Object_like [''extern''])]
      \<and> macros s' =
          (after_common common s)
            (LIBFUSN_EXTERN \<mapsto> Object_like [],
             LIBFUSN_EXTERN_VARIABLE \<mapsto> Object_like [''extern''])"
    by (simp add: local_branch_macros m)
next
  fix common
  assume c: "R common_h = Some common"
    and h: "\<not> is_defined HAVE_LOCAL_LIBFUSN (after_common common s)"
    and n: "R extern_h = None"
  from prologue_after_common [of R common s, OF c] obtain s1
    where p: "prologue R s = Inr s1"
      and m: "macros s1 = after_common common s"
    by auto
  from h m have h1: "\<not> is_defined HAVE_LOCAL_LIBFUSN (macros s1)"
    by simp
  show "libfusn_extern_h R s = Inl (Header_not_found extern_h)"
    by (simp only: header_shared [OF assms p h1] shared_branch_missing [of R s1, OF n])
next
  fix common companion
  assume c: "R common_h = Some common"
    and h: "\<not> is_defined HAVE_LOCAL_LIBFUSN (after_common common s)"
    and e: "R extern_h = Some companion"
  from prologue_after_common [of R common s, OF c] obtain s1
    where p: "prologue R s = Inr s1"
      and m: "macros s1 = after_common common s"
      and d: "directives s1 = directives s @ [Define GUARD (Object_like []), Include common_h]"
    by auto
  from h m have h1: "\<not> is_defined HAVE_LOCAL_LIBFUSN (macros s1)"
    by simp
  note r = header_shared [OF assms p h1]
  show "\<exists>s'. libfusn_extern_h R s = Inr s'
      \<and> take 2 (performed s s') = [Define GUARD (Object_like []), Include common_h]
      \<and> macros s' =
          (companion
             (if is_defined WIN32 (after_common common s)
                 \<and> is_defined DLL_EXPORT (after_common common s)
              then (after_common common s)(LIBFUSN_DLL_EXPORT \<mapsto> Object_like [])
              else after_common common s))
            (LIBFUSN_EXTERN_VARIABLE \<mapsto> Object_like [LIBFUSN_EXTERN])"
  proof (cases "is_defined WIN32 (macros s1) \<and> is_defined DLL_EXPORT (macros s1)")
    case True
    then have w: "is_defined WIN32 (macros s1)" and x: "is_defined DLL_EXPORT (macros s1)"
      by simp_all
    from shared_branch_export [of R companion s1, OF e w x] obtain s'
      where b: "shared_branch R s1 = Inr s'"
        and ds: "directives s' = directives s1 @
                  [Define LIBFUSN_DLL_EXPORT (Object_like []), Include extern_h,
                   Define LIBFUSN_EXTERN_VARIABLE (Object_like [LIBFUSN_EXTERN])]"
        and ms: "macros s' =
                  (companion ((macros s1)(LIBFUSN_DLL_EXPORT \<mapsto> Object_like [])))
                    (LIBFUSN_EXTERN_VARIABLE \<mapsto> Object_like [LIBFUSN_EXTERN])"
      by auto
    have "directives s' = directives s @
        [Define GUARD (Object_like []), Include common_h,
         Define LIBFUSN_DLL_EXPORT (Object_like []), Include extern_h,
         Define LIBFUSN_EXTERN_VARIABLE (Object_like [LIBFUSN_EXTERN])]"
      by (simp add: ds d)
    from performed_append [OF this] r b ms True show ?thesis
      by (simp add: m)
  next
    case False
    from shared_branch_import [of R companion s1, OF e False] obtain s'
      where b: "shared_branch R s1 = Inr s'"
        and ds: "directives s' = directives s1 @
                  [Include extern_h,
                   Define LIBFUSN_EXTERN_VARIABLE (Object_like [LIBFUSN_EXTERN])]"
        and ms: "macros s' =
                  (companion (macros s1))
                    (LIBFUSN_EXTERN_VARIABLE \<mapsto> Object_like [LIBFUSN_EXTERN])"
      by auto
    have "directives s' = directives s @
        [Define GUARD (Object_like []), Include common_h, Include extern_h,
         Define LIBFUSN_EXTERN_VARIABLE (Object_like [LIBFUSN_EXTERN])]"
      by (simp add: ds d)
    from performed_append [OF this] r b ms False show ?thesis
      by (auto simp: m)
  qed
qed

theorem common_h_always_included_witness:
  "\<not> is_defined GUARD (macros (initial_state [HAVE_LOCAL_LIBFUSN]))
   \<and> no_headers common_h = None
   \<and> libfusn_extern_h no_headers (initial_state [HAVE_LOCAL_LIBFUSN]) =
       Inl (Header_not_found common_h)
   \<and> \<not> is_defined GUARD (macros (initial_state []))
   \<and> config_headers common_h = Some config_common_h
   \<and> \<not> is_defined HAVE_LOCAL_LIBFUSN (macros (initial_state []))
   \<and> is_defined HAVE_LOCAL_LIBFUSN (after_common config_common_h (initial_state []))
   \<and> (\<exists>s'. libfusn_extern_h config_headers (initial_state []) = Inr s'
         \<and> performed (initial_state []) s' =
             [Define GUARD (Object_like []), Include common_h,
              Define LIBFUSN_EXTERN (Object_like []),
              Define LIBFUSN_EXTERN_VARIABLE (Object_like [''extern''])]
         \<and> macros s' HAVE_LOCAL_LIBFUSN = Some (Object_like [''1''])
         \<and> macros s' LIBFUSN_EXTERN = Some (Object_like []))
   \<and> \<not> is_defined GUARD (macros (initial_state [WIN32, DLL_EXPORT]))
   \<and> all_headers common_h = Some plain_common_h
   \<and> all_headers extern_h = Some sample_extern_h
   \<and> \<not> is_defined HAVE_LOCAL_LIBFUSN
         (after_common plain_common_h (initial_state [WIN32, DLL_EXPORT]))
   \<and> (\<exists>s'. libfusn_extern_h all_headers (initial_state [WIN32, DLL_EXPORT]) = Inr s'
         \<and> take 2 (performed (initial_state [WIN32, DLL_EXPORT]) s') =
             [Define GUARD (Object_like []), Include common_h]
         \<and> macros s' LIBFUSN_EXTERN = Some export_annotation)"
proof -
  let ?a = "initial_state [HAVE_LOCAL_LIBFUSN]"
  let ?b = "initial_state []"
  let ?c = "initial_state [WIN32, DLL_EXPORT]"
  have ga: "\<not> is_defined GUARD (macros ?a)" and gb: "\<not> is_defined GUARD (macros ?b)"
    and gc: "\<not> is_defined GUARD (macros ?c)"
    by (simp_all add: initial_state_fresh)
  have na: "no_headers common_h = None"
    by (simp add: no_headers_def)
  from common_h_always_included [OF ga, of no_headers] na
  have fa: "libfusn_extern_h no_headers ?a = Inl (Header_not_found common_h)"
    by simp
  have cb: "config_headers common_h = Some config_common_h"
    by (simp add: config_headers_def)
  have ub: "\<not> is_defined HAVE_LOCAL_LIBFUSN (macros ?b)"
    by (simp add: initial_state_def is_defined_predefined)
  have mb: "after_common config_common_h ?b =
      (predefined [])(GUARD \<mapsto> Object_like [], HAVE_LOCAL_LIBFUSN \<mapsto> Object_like [''1''])"
    by (simp only: after_common_def config_common_h_def initial_state_def pp_state.simps)
  have hb: "is_defined HAVE_LOCAL_LIBFUSN (after_common config_common_h ?b)"
    by (simp add: mb is_defined_upd)
  from common_h_always_included [OF gb, of config_headers] cb hb
  have "\<exists>s'. libfusn_extern_h config_headers ?b = Inr s'
      \<and> performed ?b s' =
          [Define GUARD (Object_like []), Include common_h,
           Define LIBFUSN_EXTERN (Object_like []),
           Define LIBFUSN_EXTERN_VARIABLE (Object_like [''extern''])]
      \<and> macros s' =
          (after_common config_common_h ?b)
            (LIBFUSN_EXTERN \<mapsto> Object_like [],
             LIBFUSN_EXTERN_VARIABLE \<mapsto> Object_like [''extern''])"
    by simp
  then have rb: "\<exists>s'. libfusn_extern_h config_headers ?b = Inr s'
      \<and> performed ?b s' =
          [Define GUARD (Object_like []), Include common_h,
           Define LIBFUSN_EXTERN (Object_like []),
           Define LIBFUSN_EXTERN_VARIABLE (Object_like [''extern''])]
      \<and> macros s' HAVE_LOCAL_LIBFUSN = Some (Object_like [''1''])
      \<and> macros s' LIBFUSN_EXTERN = Some (Object_like [])"
    by (auto simp: mb)
  have cc: "all_headers common_h = Some plain_common_h"
    and ec: "all_headers extern_h = Some sample_extern_h"
    by (simp_all add: all_headers_def)
  have mc: "after_common plain_common_h ?c =
      (predefined [WIN32, DLL_EXPORT])(GUARD \<mapsto> Object_like [])"
    by (simp only: after_common_def plain_common_h_def initial_state_def pp_state.simps)
  have hc: "\<not> is_defined HAVE_LOCAL_LIBFUSN (after_common plain_common_h ?c)"
    and wc: "is_defined WIN32 (after_common plain_common_h ?c)"
    and xc: "is_defined DLL_EXPORT (after_common plain_common_h ?c)"
    by (simp_all add: mc is_defined_upd is_defined_predefined)
  from common_h_always_included [OF gc, of all_headers] cc ec hc wc xc
  have "\<exists>s'. libfusn_extern_h all_headers ?c = Inr s'
      \<and> take 2 (performed ?c s') = [Define GUARD (Object_like []), Include common_h]
      \<and> macros s' =
          (sample_extern_h
             ((after_common plain_common_h ?c)(LIBFUSN_DLL_EXPORT \<mapsto> Object_like [])))
            (LIBFUSN_EXTERN_VARIABLE \<mapsto> Object_like [LIBFUSN_EXTERN])"
    by simp
  then have rc: "\<exists>s'. libfusn_extern_h all_headers ?c = Inr s'
      \<and> take 2 (performed ?c s') = [Define GUARD (Object_like []), Include common_h]
      \<and> macros s' LIBFUSN_EXTERN = Some export_annotation"
    by (auto simp: sample_extern_h_def is_defined_upd)
  from ga na fa gb cb ub hb rb gc cc ec hc rc show ?thesis
    by simp
qed

section \<open>Repeated inclusion\<close>

text \<open>
  C5. For every build configuration and every \<open>n \<ge> 1\<close>, including the header \<open>n\<close> times
  in a row gives exactly the result of including it once: the same macro table, the same
  executed directives and the same diagnostics, so no inclusion after the first
  redefines a macro; after a successful first inclusion every further one returns the
  state unchanged. The included headers are assumed not to undefine the guard symbol.
\<close>

theorem repeated_inclusion_idempotent:
  assumes "1 \<le> n" and "headers_keep_guard R"
  shows "include_times n R s = include_times 1 R s
       \<and> (\<forall>s'. include_times 1 R s = Inr s' \<longrightarrow> libfusn_extern_h R s' = Inr s')"
proof -
  from assms(1) obtain k where n: "n = Suc k"
    by (cases n) simp_all
  have "include_times n R s = include_times 1 R s"
    by (simp only: n header_again [OF assms(2)] header_once)
  moreover have "libfusn_extern_h R s' = Inr s'" if "include_times 1 R s = Inr s'" for s'
  proof -
    from that have "libfusn_extern_h R s = Inr s'"
      by (simp only: header_once)
    from header_defines_guard [OF this assms(2)] show ?thesis
      by (rule header_guarded)
  qed
  ultimately show ?thesis by simp
qed

theorem repeated_inclusion_idempotent_witness:
  "(1::nat) \<le> 3
   \<and> headers_keep_guard all_headers
   \<and> include_times 3 all_headers (initial_state [WIN32, DLL_EXPORT]) =
       include_times 1 all_headers (initial_state [WIN32, DLL_EXPORT])
   \<and> (\<exists>s'. include_times 1 all_headers (initial_state [WIN32, DLL_EXPORT]) = Inr s'
         \<and> libfusn_extern_h all_headers s' = Inr s')"
proof -
  let ?s = "initial_state [WIN32, DLL_EXPORT]"
  have l: "(1::nat) \<le> 3" by simp
  note k = sample_headers_keep_guard
  have g: "\<not> is_defined GUARD (macros ?s)"
    by (simp add: initial_state_fresh)
  obtain s1 where p: "prologue all_headers ?s = Inr s1"
    using prologue_initial_state [of all_headers] by (auto simp: all_headers_def)
  have x: "all_headers extern_h = None \<longrightarrow> is_defined HAVE_LOCAL_LIBFUSN (macros s1)"
    by (simp add: all_headers_def)
  from header_directives [OF g p x] obtain s'
    where "libfusn_extern_h all_headers ?s = Inr s'"
    by auto
  then have o: "include_times 1 all_headers ?s = Inr s'"
    by (simp only: header_once)
  from repeated_inclusion_idempotent [OF l k, of ?s] o l k
  show ?thesis by simp
qed

section \<open>The decision tree\<close>

text \<open>
  C6. For every assignment of defined or undefined to \<^verbatim>\<open>HAVE_LOCAL_LIBFUSN\<close>, \<^verbatim>\<open>_WIN32\<close>
  and \<^verbatim>\<open>DLL_EXPORT\<close> at the point where the header tests them, processing succeeds (the
  companion header may be missing only in a local build) and the macro table it leaves
  is in exactly one of the three linkage modes: at least one, and no two. The mode is
  the local one when \<^verbatim>\<open>HAVE_LOCAL_LIBFUSN\<close> is defined; otherwise the export one when
  \<^verbatim>\<open>_WIN32\<close> and \<^verbatim>\<open>DLL_EXPORT\<close> are both defined or \<^verbatim>\<open>LIBFUSN_DLL_EXPORT\<close> was already
  defined; otherwise the import one. In the local mode \<^verbatim>\<open>LIBFUSN_EXTERN\<close> is empty; in
  the export (import) mode it is the annotation with which the companion header
  answers a defined (undefined) \<^verbatim>\<open>LIBFUSN_DLL_EXPORT\<close>.
\<close>

theorem exactly_one_linkage_mode:
  assumes "\<not> is_defined GUARD (macros s)"
      and "prologue R s = Inr s1"
      and "R extern_h = None \<longrightarrow> is_defined HAVE_LOCAL_LIBFUSN (macros s1)"
  shows "\<exists>s'. libfusn_extern_h R s = Inr s'
           \<and> (\<exists>!mode. linkage R s1 s' mode)
           \<and> linkage R s1 s'
                (if is_defined HAVE_LOCAL_LIBFUSN (macros s1) then Local
                 else if is_defined WIN32 (macros s1) \<and> is_defined DLL_EXPORT (macros s1)
                         \<or> is_defined LIBFUSN_DLL_EXPORT (macros s1)
                   then Dll_export
                 else Dll_import)
           \<and> (linkage R s1 s' Local \<longrightarrow>
                macros s' LIBFUSN_EXTERN = Some (Object_like [])
                \<and> macros s' LIBFUSN_EXTERN_VARIABLE = Some (Object_like [''extern'']))
           \<and> (linkage R s1 s' Dll_export \<longrightarrow>
                (\<forall>companion ann. R extern_h = Some companion \<longrightarrow>
                   exports_on_flag companion ann \<longrightarrow> macros s' LIBFUSN_EXTERN = Some ann))
           \<and> (linkage R s1 s' Dll_import \<longrightarrow>
                (\<forall>companion ann. R extern_h = Some companion \<longrightarrow>
                   imports_without_flag companion ann \<longrightarrow>
                   macros s' LIBFUSN_EXTERN = Some ann))"
proof -
  from header_directives [OF assms] obtain s'
    where r: "libfusn_extern_h R s = Inr s'"
    by auto
  have a: "(linkage R s1 s' Local \<longrightarrow>
        macros s' LIBFUSN_EXTERN = Some (Object_like [])
        \<and> macros s' LIBFUSN_EXTERN_VARIABLE = Some (Object_like [''extern'']))
      \<and> (linkage R s1 s' Dll_export \<longrightarrow>
          (\<forall>companion ann. R extern_h = Some companion \<longrightarrow>
             exports_on_flag companion ann \<longrightarrow> macros s' LIBFUSN_EXTERN = Some ann))
      \<and> (linkage R s1 s' Dll_import \<longrightarrow>
          (\<forall>companion ann. R extern_h = Some companion \<longrightarrow>
             imports_without_flag companion ann \<longrightarrow> macros s' LIBFUSN_EXTERN = Some ann))"
  proof (intro conjI impI allI)
    assume "linkage R s1 s' Local"
    then show "macros s' LIBFUSN_EXTERN = Some (Object_like [])"
      and "macros s' LIBFUSN_EXTERN_VARIABLE = Some (Object_like [''extern''])"
      by (simp_all only: linkage_local_annotation)
  next
    fix companion ann
    assume "linkage R s1 s' Dll_export" and "R extern_h = Some companion"
      and "exports_on_flag companion ann"
    then show "macros s' LIBFUSN_EXTERN = Some ann"
      by (rule linkage_export_annotation)
  next
    fix companion ann
    assume "linkage R s1 s' Dll_import" and "R extern_h = Some companion"
      and "imports_without_flag companion ann"
    then show "macros s' LIBFUSN_EXTERN = Some ann"
      by (rule linkage_import_annotation)
  qed
  have "(\<exists>!mode. linkage R s1 s' mode)
      \<and> linkage R s1 s'
           (if is_defined HAVE_LOCAL_LIBFUSN (macros s1) then Local
            else if is_defined WIN32 (macros s1) \<and> is_defined DLL_EXPORT (macros s1)
                    \<or> is_defined LIBFUSN_DLL_EXPORT (macros s1)
              then Dll_export
            else Dll_import)"
  proof (cases "is_defined HAVE_LOCAL_LIBFUSN (macros s1)")
    case True
    from r [symmetric] header_local [OF assms(1,2) True]
    have "Inr s' = (Inr (local_branch s1) :: pp_error + pp_state)" by (rule trans)
    then have "s' = local_branch s1" by (simp only: sum.inject)
    then have "macros s' =
        (macros s1)(LIBFUSN_EXTERN \<mapsto> Object_like [],
                   LIBFUSN_EXTERN_VARIABLE \<mapsto> Object_like [''extern''])"
      by (simp only: local_branch_macros)
    from linkage_local_only [OF this, of R] True show ?thesis
      by (simp only: ex1_eq if_True simp_thms)
  next
    case False
    with assms(3) obtain companion where e: "R extern_h = Some companion"
      by auto
    note m = header_shared_macros [OF assms(1,2) False e r]
    from linkage_shared_only [of R companion s' s1, OF e m] False show ?thesis
      by (simp only: ex1_eq if_False dll_export_block_flag simp_thms)
  qed
  with r a show ?thesis by simp
qed

theorem exactly_one_linkage_mode_witness:
  "(\<exists>s1. \<not> is_defined GUARD
            (macros (initial_state [HAVE_LOCAL_LIBFUSN, WIN32, DLL_EXPORT]))
      \<and> prologue only_common_h (initial_state [HAVE_LOCAL_LIBFUSN, WIN32, DLL_EXPORT])
          = Inr s1
      \<and> only_common_h extern_h = None
      \<and> is_defined HAVE_LOCAL_LIBFUSN (macros s1)
      \<and> (\<exists>s'. libfusn_extern_h only_common_h
                 (initial_state [HAVE_LOCAL_LIBFUSN, WIN32, DLL_EXPORT]) = Inr s'
            \<and> (\<exists>!mode. linkage only_common_h s1 s' mode)
            \<and> linkage only_common_h s1 s' Local
            \<and> macros s' LIBFUSN_EXTERN = Some (Object_like [])))
   \<and> (\<exists>s1. \<not> is_defined GUARD (macros (initial_state [WIN32, DLL_EXPORT]))
      \<and> prologue all_headers (initial_state [WIN32, DLL_EXPORT]) = Inr s1
      \<and> all_headers extern_h = Some sample_extern_h
      \<and> \<not> is_defined HAVE_LOCAL_LIBFUSN (macros s1)
      \<and> is_defined WIN32 (macros s1) \<and> is_defined DLL_EXPORT (macros s1)
      \<and> exports_on_flag sample_extern_h export_annotation
      \<and> (\<exists>s'. libfusn_extern_h all_headers (initial_state [WIN32, DLL_EXPORT]) = Inr s'
            \<and> (\<exists>!mode. linkage all_headers s1 s' mode)
            \<and> linkage all_headers s1 s' Dll_export
            \<and> macros s' LIBFUSN_EXTERN = Some export_annotation))
   \<and> (\<exists>s1. \<not> is_defined GUARD (macros (initial_state [LIBFUSN_DLL_EXPORT]))
      \<and> prologue all_headers (initial_state [LIBFUSN_DLL_EXPORT]) = Inr s1
      \<and> all_headers extern_h = Some sample_extern_h
      \<and> \<not> is_defined HAVE_LOCAL_LIBFUSN (macros s1)
      \<and> \<not> is_defined WIN32 (macros s1) \<and> \<not> is_defined DLL_EXPORT (macros s1)
      \<and> is_defined LIBFUSN_DLL_EXPORT (macros s1)
      \<and> exports_on_flag sample_extern_h export_annotation
      \<and> (\<exists>s'. libfusn_extern_h all_headers (initial_state [LIBFUSN_DLL_EXPORT]) = Inr s'
            \<and> (\<exists>!mode. linkage all_headers s1 s' mode)
            \<and> linkage all_headers s1 s' Dll_export
            \<and> macros s' LIBFUSN_EXTERN = Some export_annotation))
   \<and> (\<exists>s1. \<not> is_defined GUARD (macros (initial_state [WIN32]))
      \<and> prologue all_headers (initial_state [WIN32]) = Inr s1
      \<and> all_headers extern_h = Some sample_extern_h
      \<and> \<not> is_defined HAVE_LOCAL_LIBFUSN (macros s1)
      \<and> is_defined WIN32 (macros s1) \<and> \<not> is_defined DLL_EXPORT (macros s1)
      \<and> \<not> is_defined LIBFUSN_DLL_EXPORT (macros s1)
      \<and> imports_without_flag sample_extern_h import_annotation
      \<and> (\<exists>s'. libfusn_extern_h all_headers (initial_state [WIN32]) = Inr s'
            \<and> (\<exists>!mode. linkage all_headers s1 s' mode)
            \<and> linkage all_headers s1 s' Dll_import
            \<and> macros s' LIBFUSN_EXTERN = Some import_annotation))"
proof (intro conjI)
  let ?s = "initial_state [HAVE_LOCAL_LIBFUSN, WIN32, DLL_EXPORT]"
  have g: "\<not> is_defined GUARD (macros ?s)"
    by (simp add: initial_state_fresh)
  have n: "only_common_h extern_h = None"
    by (simp add: only_common_h_def)
  obtain s1 where p: "prologue only_common_h ?s = Inr s1"
    and m: "macros s1 =
      (predefined [HAVE_LOCAL_LIBFUSN, WIN32, DLL_EXPORT])(GUARD \<mapsto> Object_like [])"
    using prologue_initial_state [of only_common_h] by (auto simp: only_common_h_def)
  have h: "is_defined HAVE_LOCAL_LIBFUSN (macros s1)"
    by (simp add: m is_defined_upd is_defined_predefined)
  then have x: "only_common_h extern_h = None \<longrightarrow> is_defined HAVE_LOCAL_LIBFUSN (macros s1)"
    by simp
  from exactly_one_linkage_mode [OF g p x] obtain s'
    where r: "libfusn_extern_h only_common_h ?s = Inr s'"
      and u: "\<exists>!mode. linkage only_common_h s1 s' mode"
      and l: "linkage only_common_h s1 s'
                (if is_defined HAVE_LOCAL_LIBFUSN (macros s1) then Local
                 else if is_defined WIN32 (macros s1) \<and> is_defined DLL_EXPORT (macros s1)
                         \<or> is_defined LIBFUSN_DLL_EXPORT (macros s1)
                   then Dll_export
                 else Dll_import)"
      and a: "linkage only_common_h s1 s' Local \<longrightarrow>
                macros s' LIBFUSN_EXTERN = Some (Object_like [])
                \<and> macros s' LIBFUSN_EXTERN_VARIABLE = Some (Object_like [''extern''])"
    by (elim exE conjE)
  from l h have k: "linkage only_common_h s1 s' Local"
    by (simp only: if_True)
  with a have e: "macros s' LIBFUSN_EXTERN = Some (Object_like [])"
    by (simp only: simp_thms)
  from r u k e
  have "\<exists>s'. libfusn_extern_h only_common_h ?s = Inr s'
      \<and> (\<exists>!mode. linkage only_common_h s1 s' mode)
      \<and> linkage only_common_h s1 s' Local
      \<and> macros s' LIBFUSN_EXTERN = Some (Object_like [])"
    by (rule_tac x = s' in exI) (simp only: simp_thms)
  with g p n h
  show "\<exists>s1. \<not> is_defined GUARD (macros ?s)
      \<and> prologue only_common_h ?s = Inr s1
      \<and> only_common_h extern_h = None
      \<and> is_defined HAVE_LOCAL_LIBFUSN (macros s1)
      \<and> (\<exists>s'. libfusn_extern_h only_common_h ?s = Inr s'
            \<and> (\<exists>!mode. linkage only_common_h s1 s' mode)
            \<and> linkage only_common_h s1 s' Local
            \<and> macros s' LIBFUSN_EXTERN = Some (Object_like []))"
    by (rule_tac x = s1 in exI) (simp only: simp_thms)
next
  let ?s = "initial_state [WIN32, DLL_EXPORT]"
  have g: "\<not> is_defined GUARD (macros ?s)"
    by (simp add: initial_state_fresh)
  have c: "all_headers extern_h = Some sample_extern_h"
    by (simp add: all_headers_def)
  note f = sample_extern_h_exports
  obtain s1 where p: "prologue all_headers ?s = Inr s1"
    and m: "macros s1 = (predefined [WIN32, DLL_EXPORT])(GUARD \<mapsto> Object_like [])"
    using prologue_initial_state [of all_headers] by (auto simp: all_headers_def)
  have h: "\<not> is_defined HAVE_LOCAL_LIBFUSN (macros s1)"
    and w: "is_defined WIN32 (macros s1)"
    and d: "is_defined DLL_EXPORT (macros s1)"
    by (simp_all add: m is_defined_upd is_defined_predefined)
  from c have x: "all_headers extern_h = None \<longrightarrow> is_defined HAVE_LOCAL_LIBFUSN (macros s1)"
    by simp
  from exactly_one_linkage_mode [OF g p x] obtain s'
    where r: "libfusn_extern_h all_headers ?s = Inr s'"
      and u: "\<exists>!mode. linkage all_headers s1 s' mode"
      and l: "linkage all_headers s1 s'
                (if is_defined HAVE_LOCAL_LIBFUSN (macros s1) then Local
                 else if is_defined WIN32 (macros s1) \<and> is_defined DLL_EXPORT (macros s1)
                         \<or> is_defined LIBFUSN_DLL_EXPORT (macros s1)
                   then Dll_export
                 else Dll_import)"
      and a: "linkage all_headers s1 s' Dll_export \<longrightarrow>
                (\<forall>companion ann. all_headers extern_h = Some companion \<longrightarrow>
                   exports_on_flag companion ann \<longrightarrow> macros s' LIBFUSN_EXTERN = Some ann)"
    by (elim exE conjE)
  from l h w d have k: "linkage all_headers s1 s' Dll_export"
    by (simp only: if_True if_False simp_thms)
  with a c f have e: "macros s' LIBFUSN_EXTERN = Some export_annotation"
    by (simp only: simp_thms)
  from r u k e
  have "\<exists>s'. libfusn_extern_h all_headers ?s = Inr s'
      \<and> (\<exists>!mode. linkage all_headers s1 s' mode)
      \<and> linkage all_headers s1 s' Dll_export
      \<and> macros s' LIBFUSN_EXTERN = Some export_annotation"
    by (rule_tac x = s' in exI) (simp only: simp_thms)
  with g p c h w d f
  show "\<exists>s1. \<not> is_defined GUARD (macros ?s)
      \<and> prologue all_headers ?s = Inr s1
      \<and> all_headers extern_h = Some sample_extern_h
      \<and> \<not> is_defined HAVE_LOCAL_LIBFUSN (macros s1)
      \<and> is_defined WIN32 (macros s1) \<and> is_defined DLL_EXPORT (macros s1)
      \<and> exports_on_flag sample_extern_h export_annotation
      \<and> (\<exists>s'. libfusn_extern_h all_headers ?s = Inr s'
            \<and> (\<exists>!mode. linkage all_headers s1 s' mode)
            \<and> linkage all_headers s1 s' Dll_export
            \<and> macros s' LIBFUSN_EXTERN = Some export_annotation)"
    by (rule_tac x = s1 in exI) (simp only: simp_thms)
next
  let ?s = "initial_state [LIBFUSN_DLL_EXPORT]"
  have g: "\<not> is_defined GUARD (macros ?s)"
    by (simp add: initial_state_fresh)
  have c: "all_headers extern_h = Some sample_extern_h"
    by (simp add: all_headers_def)
  note f = sample_extern_h_exports
  obtain s1 where p: "prologue all_headers ?s = Inr s1"
    and m: "macros s1 = (predefined [LIBFUSN_DLL_EXPORT])(GUARD \<mapsto> Object_like [])"
    using prologue_initial_state [of all_headers] by (auto simp: all_headers_def)
  have h: "\<not> is_defined HAVE_LOCAL_LIBFUSN (macros s1)"
    and w: "\<not> is_defined WIN32 (macros s1)"
    and d: "\<not> is_defined DLL_EXPORT (macros s1)"
    and b: "is_defined LIBFUSN_DLL_EXPORT (macros s1)"
    by (simp_all add: m is_defined_upd is_defined_predefined)
  from c have x: "all_headers extern_h = None \<longrightarrow> is_defined HAVE_LOCAL_LIBFUSN (macros s1)"
    by simp
  from exactly_one_linkage_mode [OF g p x] obtain s'
    where r: "libfusn_extern_h all_headers ?s = Inr s'"
      and u: "\<exists>!mode. linkage all_headers s1 s' mode"
      and l: "linkage all_headers s1 s'
                (if is_defined HAVE_LOCAL_LIBFUSN (macros s1) then Local
                 else if is_defined WIN32 (macros s1) \<and> is_defined DLL_EXPORT (macros s1)
                         \<or> is_defined LIBFUSN_DLL_EXPORT (macros s1)
                   then Dll_export
                 else Dll_import)"
      and a: "linkage all_headers s1 s' Dll_export \<longrightarrow>
                (\<forall>companion ann. all_headers extern_h = Some companion \<longrightarrow>
                   exports_on_flag companion ann \<longrightarrow> macros s' LIBFUSN_EXTERN = Some ann)"
    by (elim exE conjE)
  from l h w d b have k: "linkage all_headers s1 s' Dll_export"
    by (simp only: if_True if_False simp_thms)
  with a c f have e: "macros s' LIBFUSN_EXTERN = Some export_annotation"
    by (simp only: simp_thms)
  from r u k e
  have "\<exists>s'. libfusn_extern_h all_headers ?s = Inr s'
      \<and> (\<exists>!mode. linkage all_headers s1 s' mode)
      \<and> linkage all_headers s1 s' Dll_export
      \<and> macros s' LIBFUSN_EXTERN = Some export_annotation"
    by (rule_tac x = s' in exI) (simp only: simp_thms)
  with g p c h w d b f
  show "\<exists>s1. \<not> is_defined GUARD (macros ?s)
      \<and> prologue all_headers ?s = Inr s1
      \<and> all_headers extern_h = Some sample_extern_h
      \<and> \<not> is_defined HAVE_LOCAL_LIBFUSN (macros s1)
      \<and> \<not> is_defined WIN32 (macros s1) \<and> \<not> is_defined DLL_EXPORT (macros s1)
      \<and> is_defined LIBFUSN_DLL_EXPORT (macros s1)
      \<and> exports_on_flag sample_extern_h export_annotation
      \<and> (\<exists>s'. libfusn_extern_h all_headers ?s = Inr s'
            \<and> (\<exists>!mode. linkage all_headers s1 s' mode)
            \<and> linkage all_headers s1 s' Dll_export
            \<and> macros s' LIBFUSN_EXTERN = Some export_annotation)"
    by (rule_tac x = s1 in exI) (simp only: simp_thms)
next
  let ?s = "initial_state [WIN32]"
  have g: "\<not> is_defined GUARD (macros ?s)"
    by (simp add: initial_state_fresh)
  have c: "all_headers extern_h = Some sample_extern_h"
    by (simp add: all_headers_def)
  note f = sample_extern_h_imports
  obtain s1 where p: "prologue all_headers ?s = Inr s1"
    and m: "macros s1 = (predefined [WIN32])(GUARD \<mapsto> Object_like [])"
    using prologue_initial_state [of all_headers] by (auto simp: all_headers_def)
  have h: "\<not> is_defined HAVE_LOCAL_LIBFUSN (macros s1)"
    and w: "is_defined WIN32 (macros s1)"
    and d: "\<not> is_defined DLL_EXPORT (macros s1)"
    and b: "\<not> is_defined LIBFUSN_DLL_EXPORT (macros s1)"
    by (simp_all add: m is_defined_upd is_defined_predefined)
  from c have x: "all_headers extern_h = None \<longrightarrow> is_defined HAVE_LOCAL_LIBFUSN (macros s1)"
    by simp
  from exactly_one_linkage_mode [OF g p x] obtain s'
    where r: "libfusn_extern_h all_headers ?s = Inr s'"
      and u: "\<exists>!mode. linkage all_headers s1 s' mode"
      and l: "linkage all_headers s1 s'
                (if is_defined HAVE_LOCAL_LIBFUSN (macros s1) then Local
                 else if is_defined WIN32 (macros s1) \<and> is_defined DLL_EXPORT (macros s1)
                         \<or> is_defined LIBFUSN_DLL_EXPORT (macros s1)
                   then Dll_export
                 else Dll_import)"
      and a: "linkage all_headers s1 s' Dll_import \<longrightarrow>
                (\<forall>companion ann. all_headers extern_h = Some companion \<longrightarrow>
                   imports_without_flag companion ann \<longrightarrow>
                   macros s' LIBFUSN_EXTERN = Some ann)"
    by (elim exE conjE)
  from l h w d b have k: "linkage all_headers s1 s' Dll_import"
    by (simp only: if_True if_False simp_thms)
  with a c f have e: "macros s' LIBFUSN_EXTERN = Some import_annotation"
    by (simp only: simp_thms)
  from r u k e
  have "\<exists>s'. libfusn_extern_h all_headers ?s = Inr s'
      \<and> (\<exists>!mode. linkage all_headers s1 s' mode)
      \<and> linkage all_headers s1 s' Dll_import
      \<and> macros s' LIBFUSN_EXTERN = Some import_annotation"
    by (rule_tac x = s' in exI) (simp only: simp_thms)
  with g p c h w d b f
  show "\<exists>s1. \<not> is_defined GUARD (macros ?s)
      \<and> prologue all_headers ?s = Inr s1
      \<and> all_headers extern_h = Some sample_extern_h
      \<and> \<not> is_defined HAVE_LOCAL_LIBFUSN (macros s1)
      \<and> is_defined WIN32 (macros s1) \<and> \<not> is_defined DLL_EXPORT (macros s1)
      \<and> \<not> is_defined LIBFUSN_DLL_EXPORT (macros s1)
      \<and> imports_without_flag sample_extern_h import_annotation
      \<and> (\<exists>s'. libfusn_extern_h all_headers ?s = Inr s'
            \<and> (\<exists>!mode. linkage all_headers s1 s' mode)
            \<and> linkage all_headers s1 s' Dll_import
            \<and> macros s' LIBFUSN_EXTERN = Some import_annotation)"
    by (rule_tac x = s1 in exI) (simp only: simp_thms)
qed

section \<open>What the result depends on\<close>





end
